theory Spec2Isabelle
  imports Main "HOL-Library.Word" "HOL-Library.Sublist"
begin

section \<open>Python values\<close>

text \<open>
  A Python \<open>str\<close> is a sequence of Unicode code points, so it is modelled as a list of
  natural numbers; \<open>S\<close> turns an ASCII literal into such a sequence. A \<open>bytes\<close> object is
  a list of 8-bit words.
\<close>

type_synonym str = "nat list"
type_synonym bytes = "8 word list"

definition S :: "string \<Rightarrow> str" where
  "S cs = map of_char cs"

text \<open>
  The values that travel through the server: what \<open>json.loads\<close> produces (numbers are
  the integers \<open>lsblk\<close> prints), plus \<open>PObject\<close> for an instance of a user class
  (named by its class), which the server puts into one of its payloads. A \<open>dict\<close> keeps
  insertion order, so it is an association list with distinct keys.
\<close>

datatype pyval =
    PNone
  | PBool bool
  | PInt int
  | PStr str
  | PList "pyval list"
  | PDict "(str \<times> pyval) list"
  | PObject str

text \<open>
  The exceptions the programs raise or let through. \<open>ExternalError\<close> stands for whatever
  a collaborator outside the repository raises (the inventory client, a subprocess, the
  JSON parser).
\<close>

datatype error =
    TypeError
  | UnicodeError
  | KeyError str
  | IndexError
  | AttributeError
  | ValueError
  | RuntimeError str
  | ErrorThatCanBeManuallyFixed str
  | ExternalError str
  | EOFError
  | KeyboardInterrupt

subsection \<open>String methods\<close>

text \<open>The code points for which \<open>str.isspace\<close> holds; \<open>strip\<close> and \<open>rstrip\<close> remove them.\<close>

definition is_space :: "nat \<Rightarrow> bool" where
  "is_space c \<longleftrightarrow>
     (9 \<le> c \<and> c \<le> 13) \<or> (28 \<le> c \<and> c \<le> 32) \<or> c = 133 \<or> c = 160 \<or> c = 5760 \<or>
     (8192 \<le> c \<and> c \<le> 8202) \<or> c = 8232 \<or> c = 8233 \<or> c = 8239 \<or> c = 8287 \<or> c = 12288"

definition lstrip :: "str \<Rightarrow> str" where
  "lstrip s = dropWhile is_space s"

definition rstrip :: "str \<Rightarrow> str" where
  "rstrip s = rev (dropWhile is_space (rev s))"

definition strip :: "str \<Rightarrow> str" where
  "strip s = rstrip (lstrip s)"

definition startswith :: "str \<Rightarrow> str \<Rightarrow> bool" where
  "startswith s p \<longleftrightarrow> take (length p) s = p"

text \<open>
  \<open>str.splitlines()\<close>: a line ends at \<open>\n\<close>, \<open>\r\<close>, \<open>\r\n\<close>, \<open>\v\<close>, \<open>\f\<close>, the
  separators \<open>\x1c\<close>, \<open>\x1d\<close>, \<open>\x1e\<close>, \<open>\x85\<close>, \<open>\u2028\<close> and \<open>\u2029\<close>; the line ends
  are dropped, and a final line is produced only when it is not empty.
\<close>

definition is_linebreak :: "nat \<Rightarrow> bool" where
  "is_linebreak c \<longleftrightarrow>
     (10 \<le> c \<and> c \<le> 13) \<or> (28 \<le> c \<and> c \<le> 30) \<or> c = 133 \<or> c = 8232 \<or> c = 8233"

fun splitlines_from :: "str \<Rightarrow> str \<Rightarrow> str list" where
  "splitlines_from cur [] = (if cur = [] then [] else [cur])"
| "splitlines_from cur (c # cs) =
     (if c = 13 \<and> cs \<noteq> [] \<and> hd cs = 10 then cur # splitlines_from [] (tl cs)
      else if is_linebreak c then cur # splitlines_from [] cs
      else splitlines_from (cur @ [c]) cs)"

definition splitlines :: "str \<Rightarrow> str list" where
  "splitlines s = splitlines_from [] s"

definition join :: "str \<Rightarrow> str list \<Rightarrow> str" where
  "join sep xs = (case xs of [] \<Rightarrow> [] | y # ys \<Rightarrow> y @ concat (map (\<lambda>z. sep @ z) ys))"

text \<open>\<open>sub in s\<close> on strings: \<open>sub\<close> occurs somewhere in \<open>s\<close>.\<close>

definition contains :: "str \<Rightarrow> str \<Rightarrow> bool" where
  "contains s sub \<longleftrightarrow> list_ex (\<lambda>i. take (length sub) (drop i s) = sub) [0..<Suc (length s)]"

text \<open>Decimal digits, as \<open>str(n)\<close> and the f-strings print an integer.\<close>

fun str_of_nat :: "nat \<Rightarrow> str" where
  "str_of_nat n = (if n < 10 then [48 + n] else str_of_nat (n div 10) @ [48 + n mod 10])"

declare str_of_nat.simps [simp del]

definition str_of_int :: "int \<Rightarrow> str" where
  "str_of_int i = (if i < 0 then 45 # str_of_nat (nat (- i)) else str_of_nat (nat i))"

subsection \<open>Dictionaries and the dynamic operations on values\<close>

definition dict_get :: "('k \<times> 'v) list \<Rightarrow> 'k \<Rightarrow> 'v option" where
  "dict_get kvs k = map_of kvs k"

definition has_key :: "('k \<times> 'v) list \<Rightarrow> 'k \<Rightarrow> bool" where
  "has_key kvs k \<longleftrightarrow> k \<in> set (map fst kvs)"

text \<open>\<open>d[k] = v\<close> keeps the position of a key that is there and appends a new one.\<close>

fun dict_set :: "('k \<times> 'v) list \<Rightarrow> 'k \<Rightarrow> 'v \<Rightarrow> ('k \<times> 'v) list" where
  "dict_set [] k v = [(k, v)]"
| "dict_set ((k', v') # kvs) k v =
     (if k' = k then (k, v) # kvs else (k', v') # dict_set kvs k v)"

definition dict_del :: "('k \<times> 'v) list \<Rightarrow> 'k \<Rightarrow> ('k \<times> 'v) list" where
  "dict_del kvs k = filter (\<lambda>kv. fst kv \<noteq> k) kvs"

text \<open>
  \<open>k in x\<close> for a string \<open>k\<close>: a key test on a \<open>dict\<close>, an element test on a \<open>list\<close>, a
  substring test on a \<open>str\<close>, and a \<open>TypeError\<close> on a value that is no container.
\<close>

fun py_in :: "str \<Rightarrow> pyval \<Rightarrow> error + bool" where
  "py_in k (PDict kvs) = Inr (has_key kvs k)"
| "py_in k (PList xs) = Inr (PStr k \<in> set xs)"
| "py_in k (PStr s) = Inr (contains s k)"
| "py_in k _ = Inl TypeError"

text \<open>\<open>x[k]\<close> for a string \<open>k\<close>: only a \<open>dict\<close> can be indexed by a string.\<close>

fun py_getitem :: "pyval \<Rightarrow> str \<Rightarrow> error + pyval" where
  "py_getitem (PDict kvs) k = (case dict_get kvs k of None \<Rightarrow> Inl (KeyError k) | Some v \<Rightarrow> Inr v)"
| "py_getitem _ k = Inl TypeError"

text \<open>
  \<open>str(x)\<close>. For a string it is the string itself, which is the case of the \<open>path\<close> that
  \<open>lsblk\<close> prints; the scalars print as Python prints them. Inside a container Python
  prints the \<open>repr\<close> of a string, with quotes chosen by its content and escapes; here it
  is always put between single quotes, unescaped.
\<close>

fun py_repr :: "pyval \<Rightarrow> str" where
  "py_repr PNone = S ''None''"
| "py_repr (PBool b) = (if b then S ''True'' else S ''False'')"
| "py_repr (PInt i) = str_of_int i"
| "py_repr (PStr s) = S [CHR 0x27] @ s @ S [CHR 0x27]"
| "py_repr (PList xs) = S ''['' @ join (S '', '') (map py_repr xs) @ S '']''"
| "py_repr (PDict kvs) =
     S ''{'' @ join (S '', '')
       (map (\<lambda>kv. S [CHR 0x27] @ fst kv @ S [CHR 0x27] @ S '': '' @ py_repr (snd kv)) kvs) @ S ''}''"
| "py_repr (PObject c) = S ''<'' @ c @ S '' object>''"

definition py_str :: "pyval \<Rightarrow> str" where
  "py_str v = (case v of PStr s \<Rightarrow> s | _ \<Rightarrow> py_repr v)"

text \<open>Iteration, \<open>len\<close> and \<open>x[0]\<close>, as Python defines them on each kind of value.\<close>

fun py_iter :: "pyval \<Rightarrow> error + pyval list" where
  "py_iter (PList xs) = Inr xs"
| "py_iter (PDict kvs) = Inr (map (\<lambda>kv. PStr (fst kv)) kvs)"
| "py_iter (PStr s) = Inr (map (\<lambda>c. PStr [c]) s)"
| "py_iter _ = Inl TypeError"

fun py_len :: "pyval \<Rightarrow> error + nat" where
  "py_len (PList xs) = Inr (length xs)"
| "py_len (PDict kvs) = Inr (length kvs)"
| "py_len (PStr s) = Inr (length s)"
| "py_len _ = Inl TypeError"

fun py_first :: "pyval \<Rightarrow> error + pyval" where
  "py_first (PList xs) = (case xs of [] \<Rightarrow> Inl IndexError | x # _ \<Rightarrow> Inr x)"
| "py_first (PStr s) = (case s of [] \<Rightarrow> Inl IndexError | c # _ \<Rightarrow> Inr (PStr [c]))"
| "py_first (PDict kvs) = Inl (KeyError (S ''0''))"
| "py_first _ = Inl TypeError"

subsection \<open>UTF-8\<close>

text \<open>
  \<open>str.encode('utf-8')\<close>: one to four bytes per code point; a surrogate cannot be
  encoded. \<open>bytes.decode('utf-8')\<close> is strict: it rejects a stray or missing continuation
  byte, an overlong form, a surrogate and anything above \<open>U+10FFFF\<close>.
\<close>

definition utf8_encode_cp :: "nat \<Rightarrow> bytes option" where
  "utf8_encode_cp c =
     (if c < 0x80 then Some [of_nat c]
      else if c < 0x800 then Some [of_nat (0xC0 + c div 64), of_nat (0x80 + c mod 64)]
      else if 0xD800 \<le> c \<and> c \<le> 0xDFFF then None
      else if c < 0x10000
      then Some [of_nat (0xE0 + c div 4096), of_nat (0x80 + (c div 64) mod 64),
                 of_nat (0x80 + c mod 64)]
      else if c < 0x110000
      then Some [of_nat (0xF0 + c div 262144), of_nat (0x80 + (c div 4096) mod 64),
                 of_nat (0x80 + (c div 64) mod 64), of_nat (0x80 + c mod 64)]
      else None)"

fun utf8_encode :: "str \<Rightarrow> bytes option" where
  "utf8_encode [] = Some []"
| "utf8_encode (c # cs) =
     (case utf8_encode_cp c of
        None \<Rightarrow> None
      | Some bs \<Rightarrow> (case utf8_encode cs of None \<Rightarrow> None | Some r \<Rightarrow> Some (bs @ r)))"

definition is_cont :: "8 word \<Rightarrow> bool" where
  "is_cont b \<longleftrightarrow> 0x80 \<le> unat b \<and> unat b \<le> 0xBF"

definition cont :: "8 word \<Rightarrow> nat" where
  "cont b = unat b - 0x80"

fun utf8_decode :: "bytes \<Rightarrow> str option" where
  "utf8_decode [] = Some []"
| "utf8_decode (b # bs) =
     (let n = unat b in
      if n < 0x80 then map_option ((#) n) (utf8_decode bs)
      else if 0xC2 \<le> n \<and> n \<le> 0xDF then
        (case bs of
           b1 # r \<Rightarrow>
             if is_cont b1
             then map_option ((#) ((n - 0xC0) * 64 + cont b1)) (utf8_decode r)
             else None
         | _ \<Rightarrow> None)
      else if 0xE0 \<le> n \<and> n \<le> 0xEF then
        (case bs of
           b1 # b2 # r \<Rightarrow>
             if is_cont b1 \<and> is_cont b2 \<and> (n = 0xE0 \<longrightarrow> 0xA0 \<le> unat b1) \<and>
                (n = 0xED \<longrightarrow> unat b1 \<le> 0x9F)
             then map_option ((#) ((n - 0xE0) * 4096 + cont b1 * 64 + cont b2)) (utf8_decode r)
             else None
         | _ \<Rightarrow> None)
      else if 0xF0 \<le> n \<and> n \<le> 0xF4 then
        (case bs of
           b1 # b2 # b3 # r \<Rightarrow>
             if is_cont b1 \<and> is_cont b2 \<and> is_cont b3 \<and> (n = 0xF0 \<longrightarrow> 0x90 \<le> unat b1) \<and>
                (n = 0xF4 \<longrightarrow> unat b1 \<le> 0x8F)
             then map_option
                    ((#) ((n - 0xF0) * 262144 + cont b1 * 4096 + cont b2 * 64 + cont b3))
                    (utf8_decode r)
             else None
         | _ \<Rightarrow> None)
      else None)"

subsection \<open>JSON text\<close>

text \<open>
  \<open>json.dumps(param, separators=(',', ':'), indent=None)\<close>, with the default
  \<open>ensure_ascii\<close>: inside a string the quote, the backslash and the characters outside
  the printable ASCII range are escaped, a code point above \<open>U+FFFF\<close> as a surrogate
  pair. An object of a user class has no encoding: \<open>TypeError\<close>.
\<close>

definition hex_digit :: "nat \<Rightarrow> nat" where
  "hex_digit n = (if n < 10 then 48 + n else 87 + n)"

definition hex4 :: "nat \<Rightarrow> str" where
  "hex4 n = [hex_digit (n div 4096 mod 16), hex_digit (n div 256 mod 16),
             hex_digit (n div 16 mod 16), hex_digit (n mod 16)]"

definition json_escape :: "nat \<Rightarrow> str" where
  "json_escape c =
     (if c = 0x22 then S [CHR 0x5C, CHR 0x22]
      else if c = 0x5C then S [CHR 0x5C, CHR 0x5C]
      else if c = 0x0A then S [CHR 0x5C, CHR ''n'']
      else if c = 0x0D then S [CHR 0x5C, CHR ''r'']
      else if c = 0x09 then S [CHR 0x5C, CHR ''t'']
      else if c = 0x0C then S [CHR 0x5C, CHR ''f'']
      else if c = 0x08 then S [CHR 0x5C, CHR ''b'']
      else if 0x20 \<le> c \<and> c \<le> 0x7E then [c]
      else if c < 0x10000 then S [CHR 0x5C, CHR ''u''] @ hex4 c
      else S [CHR 0x5C, CHR ''u''] @ hex4 (0xD800 + (c - 0x10000) div 1024) @
           S [CHR 0x5C, CHR ''u''] @ hex4 (0xDC00 + (c - 0x10000) mod 1024))"

definition json_string :: "str \<Rightarrow> str" where
  "json_string s = S [CHR 0x22] @ concat (map json_escape s) @ S [CHR 0x22]"

fun json_dumps :: "pyval \<Rightarrow> error + str"
  and json_dumps_list :: "pyval list \<Rightarrow> error + str list"
  and json_dumps_items :: "(str \<times> pyval) list \<Rightarrow> error + str list" where
  "json_dumps PNone = Inr (S ''null'')"
| "json_dumps (PBool b) = Inr (if b then S ''true'' else S ''false'')"
| "json_dumps (PInt i) = Inr (str_of_int i)"
| "json_dumps (PStr s) = Inr (json_string s)"
| "json_dumps (PList xs) =
     (case json_dumps_list xs of
        Inl e \<Rightarrow> Inl e
      | Inr ys \<Rightarrow> Inr (S ''['' @ join (S '','') ys @ S '']''))"
| "json_dumps (PDict kvs) =
     (case json_dumps_items kvs of
        Inl e \<Rightarrow> Inl e
      | Inr ys \<Rightarrow> Inr (S ''{'' @ join (S '','') ys @ S ''}''))"
| "json_dumps (PObject c) = Inl TypeError"
| "json_dumps_list [] = Inr []"
| "json_dumps_list (x # xs) =
     (case json_dumps x of
        Inl e \<Rightarrow> Inl e
      | Inr y \<Rightarrow> (case json_dumps_list xs of Inl e \<Rightarrow> Inl e | Inr ys \<Rightarrow> Inr (y # ys)))"
| "json_dumps_items [] = Inr []"
| "json_dumps_items (kv # kvs) =
     (case json_dumps (snd kv) of
        Inl e \<Rightarrow> Inl e
      | Inr y \<Rightarrow>
          (case json_dumps_items kvs of
             Inl e \<Rightarrow> Inl e
           | Inr ys \<Rightarrow> Inr ((json_string (fst kv) @ S '':'' @ y) # ys)))"

text \<open>A string of code points below 128: its UTF-8 encoding is the string itself.\<close>

definition ascii :: "str \<Rightarrow> bool" where
  "ascii s \<longleftrightarrow> list_all (\<lambda>c. c < 128) s"


section \<open>The observable trace\<close>

text \<open>
  What a run does besides computing: the log records it writes and the calls it makes to
  its collaborators, in the order they happen. A log record has its level, its message
  and the exception passed as \<open>exc_info\<close>.
\<close>

datatype level = DEBUG | INFO | WARNING | ERROR

datatype event =
    Log level str "error option"
  | GetCodes str str
  | GetItem str int
  | UpdateFeatures str pyval
  | Lsblk str
  | Smartctl str
  | Wmic str

section \<open>The inventory client and the disk record\<close>

text \<open>
  \<open>pytarallo\<close>'s client is outside the repository: the three calls the server makes are the
  fields of a record, each returning its value or the exception it raises. The functions
  do not depend on time: the inventory does not change during a run.
\<close>

record tarallo =
  get_codes_by_feature :: "str \<Rightarrow> str \<Rightarrow> error + str list"
  get_item :: "str \<Rightarrow> int \<Rightarrow> error + pyval"
  update_item_features :: "str \<Rightarrow> pyval \<Rightarrow> error + bool"

text \<open>
  The class \<open>Disk\<close>. The constructor lets an instance exist only when \<open>lsblk\<close> is a
  \<open>dict\<close>, so the field holds the dictionary's items.
\<close>

record disk =
  d_lsblk :: "(str \<times> pyval) list"
  d_path :: str
  d_code :: "str option"
  d_item :: "pyval option"
  d_tarallo :: "tarallo option"

text \<open>
  Python's truth test of \<open>self._code\<close>: \<open>None\<close> and the empty string are false.
\<close>

definition code_set :: "disk \<Rightarrow> bool" where
  "code_set d \<longleftrightarrow> (case d_code d of None \<Rightarrow> False | Some c \<Rightarrow> c \<noteq> [])"

text \<open>The serial as it is looked up: a leading \<open>WD-\<close> is cut off.\<close>

definition normalized_serial :: "str \<Rightarrow> str" where
  "normalized_serial sn = (if startswith sn (S ''WD-'') then drop 3 sn else sn)"

text \<open>
  \<open>Disk._get_code\<close>. Every method of a disk takes the record and the trace and returns the
  exception it raises, if any, with the record and the trace as it leaves them. When the
  serial is missing and \<open>stop_on_error\<close> is false the method goes on to read
  \<open>self._lsblk["serial"]\<close>; a serial that is no string has no \<open>startswith\<close>.
\<close>

definition Disk_get_code :: "bool \<Rightarrow> disk \<Rightarrow> event list \<Rightarrow> error option \<times> disk \<times> event list" where
  "Disk_get_code stop_on_error d tr =
     (case d_tarallo d of
        None \<Rightarrow> (None, d\<lparr>d_code := None\<rparr>, tr)
      | Some t \<Rightarrow>
          if \<not> has_key (d_lsblk d) (S ''serial'') \<and> stop_on_error
          then (Some (ErrorThatCanBeManuallyFixed (S ''Disk '' @ d_path d @ S '' has no serial number'')),
                d\<lparr>d_code := None\<rparr>, tr)
          else
            let d1 = (if \<not> has_key (d_lsblk d) (S ''serial'') then d\<lparr>d_code := None\<rparr> else d) in
            (case dict_get (d_lsblk d) (S ''serial'') of
               None \<Rightarrow> (Some (KeyError (S ''serial'')), d1, tr)
             | Some (PStr raw) \<Rightarrow>
                 let sn = normalized_serial raw;
                     tr1 = tr @ [GetCodes (S ''sn'') sn]
                 in (case get_codes_by_feature t (S ''sn'') sn of
                       Inl e \<Rightarrow> (Some e, d1, tr1)
                     | Inr codes \<Rightarrow>
                         if length codes \<le> 0
                         then (None, d1\<lparr>d_code := None\<rparr>,
                               tr1 @ [Log DEBUG (S ''Disk '' @ sn @ S '' not found in tarallo'') None])
                         else if length codes = 1
                         then (None, d1\<lparr>d_code := Some (hd codes)\<rparr>,
                               tr1 @ [Log DEBUG (S ''Disk '' @ sn @ S '' found as '' @ hd codes) None])
                         else if stop_on_error
                         then (Some (ErrorThatCanBeManuallyFixed
                                 (S ''Duplicate codes for '' @ d_path d @ S '': '' @
                                  join (S '' '') codes @ S '', S/N is '' @ sn)),
                               d1\<lparr>d_code := None\<rparr>, tr1)
                         else (None, d1\<lparr>d_code := None\<rparr>, tr1))
             | Some _ \<Rightarrow> (Some AttributeError, d1, tr)))"

text \<open>\<open>Disk._get_item\<close>: the item is fetched only with an inventory and a code.\<close>

definition Disk_get_item :: "disk \<Rightarrow> event list \<Rightarrow> error option \<times> disk \<times> event list" where
  "Disk_get_item d tr =
     (case d_tarallo d of
        None \<Rightarrow> (None, d\<lparr>d_item := None\<rparr>, tr)
      | Some t \<Rightarrow>
          if code_set d
          then (case get_item t (the (d_code d)) 0 of
                  Inl e \<Rightarrow> (Some e, d, tr @ [GetItem (the (d_code d)) 0])
                | Inr it \<Rightarrow> (None, d\<lparr>d_item := Some it\<rparr>, tr @ [GetItem (the (d_code d)) 0]))
          else (None, d\<lparr>d_item := None\<rparr>, tr))"

text \<open>
  \<open>Disk.__init__\<close>. The test \<open>"path" not in self._lsblk\<close> and the read of
  \<open>self._lsblk["path"]\<close> are Python's dynamic operations. The \<open>raise\<close> of the first branch
  concatenates a string and \<open>self._lsblk\<close>, which is itself a \<open>TypeError\<close> unless
  \<open>self._lsblk\<close> is a string.
\<close>

definition Disk_init :: "pyval \<Rightarrow> tarallo option \<Rightarrow> event list \<Rightarrow> (error + disk) \<times> event list" where
  "Disk_init lsblk tarallo tr =
     (case py_in (S ''path'') lsblk of
        Inl e \<Rightarrow> (Inl e, tr)
      | Inr False \<Rightarrow>
          (case lsblk of
             PStr s \<Rightarrow> (Inl (RuntimeError (S ''lsblk did not provide path for this disk: '' @ s)), tr)
           | _ \<Rightarrow> (Inl TypeError, tr))
      | Inr True \<Rightarrow>
          (case py_getitem lsblk (S ''path'') of
             Inl e \<Rightarrow> (Inl e, tr)
           | Inr p \<Rightarrow>
               let d0 = \<lparr>d_lsblk = (case lsblk of PDict kvs \<Rightarrow> kvs | _ \<Rightarrow> []),
                         d_path = py_str p, d_code = None, d_item = None, d_tarallo = tarallo\<rparr>
               in (case Disk_get_code False d0 tr of
                     (Some e, d1, tr1) \<Rightarrow> (Inl e, tr1)
                   | (None, d1, tr1) \<Rightarrow>
                       (case Disk_get_item d1 tr1 of
                          (Some e, d2, tr2) \<Rightarrow> (Inl e, tr2)
                        | (None, d2, tr2) \<Rightarrow> (Inr d2, tr2)))))"

text \<open>\<open>Disk.update_if_needed\<close>: the code is resolved again only while it is not set.\<close>

definition Disk_update_if_needed :: "disk \<Rightarrow> event list \<Rightarrow> error option \<times> disk \<times> event list" where
  "Disk_update_if_needed d tr =
     (if \<not> code_set d
      then (case Disk_get_code True d tr of
              (Some e, d1, tr1) \<Rightarrow> (Some e, d1, tr1)
            | (None, d1, tr1) \<Rightarrow> Disk_get_item d1 tr1)
      else Disk_get_item d tr)"

text \<open>
  \<open>Disk.serialize_disk\<close> returns \<open>self._lsblk\<close> itself after writing the code into it, so
  the record's dictionary gains the key \<open>code\<close> as well.
\<close>

definition Disk_serialize_disk :: "disk \<Rightarrow> pyval \<times> disk" where
  "Disk_serialize_disk d =
     (let result = dict_set (d_lsblk d) (S ''code'')
                     (case d_code d of None \<Rightarrow> PNone | Some c \<Rightarrow> PStr c)
      in (PDict result, d\<lparr>d_lsblk := result\<rparr>))"

text \<open>\<open>Disk.update_status\<close>: the push happens only with an inventory and a code.\<close>

definition Disk_update_status :: "disk \<Rightarrow> str \<Rightarrow> event list \<Rightarrow> error option \<times> event list" where
  "Disk_update_status d status tr =
     (case d_tarallo d of
        None \<Rightarrow> (None, tr)
      | Some t \<Rightarrow>
          if code_set d
          then (let features = PDict [(S ''smart-data'', PStr status)];
                    tr1 = tr @ [UpdateFeatures (the (d_code d)) features]
                in case update_item_features t (the (d_code d)) features of
                     Inl e \<Rightarrow> (Some e, tr1)
                   | Inr _ \<Rightarrow> (None, tr1))
          else (None, tr))"

section \<open>The protocol of one connection\<close>

text \<open>
  \<open>TurboProtocol\<close>: the identifier, the delimiter, whether it has been fixed, what has
  been handed to the transport so far (one entry for each \<open>sendLine\<close>: the line followed
  by the delimiter), and whether \<open>loseConnection\<close> has been called.
\<close>

record proto =
  p_id :: int
  delimiter :: bytes
  delimiter_found :: bool
  written :: "bytes list"
  closing :: bool

definition TurboProtocol_init :: proto where
  "TurboProtocol_init =
     \<lparr>p_id = - 1, delimiter = [0x0A], delimiter_found = False, written = [], closing = False\<rparr>"

definition sendLine :: "proto \<Rightarrow> bytes \<Rightarrow> proto" where
  "sendLine p line = p\<lparr>written := written p @ [line @ delimiter p]\<rparr>"

text \<open>
  \<open>TurboProtocol.send_msg\<close>. The reactor runs it for the command thread; an encoding
  error there is raised inside the reactor, which logs it, and nothing is written.
\<close>

definition TurboProtocol_send_msg :: "proto \<Rightarrow> str \<Rightarrow> proto \<times> event list" where
  "TurboProtocol_send_msg p response =
     (if delimiter_found p
      then (case utf8_encode response of
              None \<Rightarrow> (p, [Log ERROR (S ''Unhandled Error'') (Some UnicodeError)])
            | Some line \<Rightarrow> (sendLine p line, []))
      else (p, [Log WARNING (S ''['' @ str_of_int (p_id p) @
                  S ''] Cannot send command to client due to unknown delimiter: '' @ response) None]))"

text \<open>
  \<open>str.lower()\<close> maps \<open>A\<close>..\<open>Z\<close> to \<open>a\<close>..\<open>z\<close> and leaves the rest of ASCII alone; what it
  does to a code point from 128 on comes from the Unicode tables, given as \<open>ulower\<close>.
  \<open>split(' ', 1)\<close> cuts at the first space, if there is one.
\<close>

definition lower :: "(nat \<Rightarrow> str) \<Rightarrow> str \<Rightarrow> str" where
  "lower ulower s =
     concat (map (\<lambda>c. if 65 \<le> c \<and> c \<le> 90 then [c + 32] else if c < 128 then [c] else ulower c) s)"

definition split1 :: "str \<Rightarrow> str list" where
  "split1 s =
     (if 32 \<in> set s then [takeWhile (\<lambda>c. c \<noteq> 32) s, tl (dropWhile (\<lambda>c. c \<noteq> 32) s)] else [s])"

text \<open>What \<open>lineReceived\<close> does with a line besides updating the protocol.\<close>

datatype action = Dropped | Close | Start str str

text \<open>
  \<open>TurboProtocol.lineReceived\<close>. A line that is not UTF-8 is logged and dropped before
  anything else is looked at. The delimiter is looked for only while it has not been
  found.
\<close>

definition lineReceived :: "(nat \<Rightarrow> str) \<Rightarrow> proto \<Rightarrow> bytes \<Rightarrow> proto \<times> event list \<times> action" where
  "lineReceived ulower p raw =
     (case utf8_decode raw of
        None \<Rightarrow>
          (p, [Log WARNING (S ''['' @ str_of_int (p_id p) @ S ''] Oh no, UnicodeDecodeError!'')
                 (Some UnicodeError)], Dropped)
      | Some line0 \<Rightarrow>
          let (p1, evs) =
                (if \<not> delimiter_found p
                 then (if length line0 > 0 \<and> last line0 = 13
                       then (p\<lparr>delimiter := [0x0D, 0x0A], delimiter_found := True\<rparr>,
                             [Log DEBUG (S ''['' @ str_of_int (p_id p) @ S ''] Client has delimiter '' @
                                S [CHR 0x5C, CHR ''r'', CHR 0x5C, CHR ''n'']) None])
                       else (p\<lparr>delimiter_found := True\<rparr>,
                             [Log DEBUG (S ''['' @ str_of_int (p_id p) @ S ''] Client has delimiter '' @
                                S [CHR 0x5C, CHR ''n'']) None]))
                 else (p, []));
              line = strip line0
          in if startswith line (S ''exit'')
             then (p1\<lparr>closing := True\<rparr>, evs, Close)
             else (let parts = split1 line;
                       cmd = lower ulower (hd parts);
                       args = (if length parts > 1 then parts ! 1 else [])
                   in (p1, evs, Start cmd args)))"

text \<open>
  The life of a connection as the protocol sees it: lines arrive, and responses are
  delivered through \<open>TurboProtocol.send_msg\<close>, in any order.
\<close>

datatype conn_event = LineIn bytes | Deliver str

fun conn_step :: "(nat \<Rightarrow> str) \<Rightarrow> proto \<Rightarrow> conn_event \<Rightarrow> proto" where
  "conn_step ulower p (LineIn raw) = fst (lineReceived ulower p raw)"
| "conn_step ulower p (Deliver response) = fst (TurboProtocol_send_msg p response)"

definition conn_run :: "(nat \<Rightarrow> str) \<Rightarrow> proto \<Rightarrow> conn_event list \<Rightarrow> proto" where
  "conn_run ulower p evs = foldl (conn_step ulower) p evs"

text \<open>
  An event that leaves a protocol whose delimiter is not yet found as it is: a line that
  is not UTF-8, or a delivery, which is refused for want of a delimiter.
\<close>

definition inert :: "conn_event \<Rightarrow> bool" where
  "inert ev = (case ev of LineIn raw \<Rightarrow> utf8_decode raw = None | Deliver response \<Rightarrow> True)"


section \<open>The command runner\<close>

text \<open>
  The module's globals and the trace make the state of the server: the disk registry (a
  \<open>dict\<close> from device path to a \<open>Disk\<close> or \<open>None\<close>), the client registry, the inventory
  client. The sets of running threads and the locks are not part of it: commands are
  taken one at a time.
\<close>

record world =
  disks :: "(str \<times> disk option) list"
  clients :: "(int \<times> proto) list"
  TARALLO :: "tarallo option"
  trace :: "event list"

text \<open>
  The processes the server starts are outside the repository: \<open>smartctl\<close> gives the
  decoded standard output, the decoded error stream and the exit code (or the exception
  of starting or decoding it), \<open>lsblk\<close> the parsed JSON document for a scope (or the
  parser's exception), \<open>wmic\<close> its two listings.
\<close>

record host =
  smartctl_proc :: "str \<Rightarrow> error + (str \<times> str \<times> int)"
  lsblk_json :: "str \<Rightarrow> error + pyval"
  wmic_caption :: str
  wmic_size :: str

definition encode_param :: "pyval \<Rightarrow> error + str" where
  "encode_param param = json_dumps param"

text \<open>
  \<open>CommandRunner.send_msg\<close>. The hand-over to the reactor by \<open>callFromThread\<close> is taken as
  the call itself.
\<close>

definition send_msg :: "int \<Rightarrow> str \<Rightarrow> pyval option \<Rightarrow> world \<Rightarrow> error option \<times> world" where
  "send_msg client_id cmd param w =
     (case dict_get (clients w) client_id of
        None \<Rightarrow>
          (None, w\<lparr>trace := trace w @
             [Log INFO (S ''['' @ str_of_int client_id @
                S ''] Connection already closed while trying to send '' @ cmd) None]\<rparr>)
      | Some thread \<Rightarrow>
          (case (case param of
                   None \<Rightarrow> Inr cmd
                 | Some pv \<Rightarrow>
                     (case encode_param pv of
                        Inl e \<Rightarrow> Inl e
                      | Inr j_param \<Rightarrow> Inr (cmd @ S '' '' @ j_param))) of
             Inl e \<Rightarrow> (Some e, w)
           | Inr response_string \<Rightarrow>
               (None, w\<lparr>clients := dict_set (clients w) client_id
                                      (fst (TurboProtocol_send_msg thread response_string)),
                         trace := trace w @ snd (TurboProtocol_send_msg thread response_string)\<rparr>)))"

text \<open>
  \<open>CommandRunner.update_disk_if_needed\<close>. The disk is an object of the registry that the
  call changes in place: the function returns it as the call leaves it, and the caller
  puts it back under its key. The first handler sends a message whose payload holds the
  \<open>Disk\<close> object itself; an exception of that send leaves the function. The second handler
  swallows everything else, also the \<open>AttributeError\<close> of calling the method on \<open>None\<close>.
\<close>

definition update_disk_if_needed :: "int \<Rightarrow> disk option \<Rightarrow> world \<Rightarrow> error option \<times> disk option \<times> world" where
  "update_disk_if_needed the_id dk w =
     (case dk of
        None \<Rightarrow> (None, None, w)
      | Some d \<Rightarrow>
          (case Disk_update_if_needed d (trace w) of
             (None, d1, tr1) \<Rightarrow> (None, Some d1, w\<lparr>trace := tr1\<rparr>)
           | (Some (ErrorThatCanBeManuallyFixed msg), d1, tr1) \<Rightarrow>
               (case send_msg the_id (S ''error_that_can_be_manually_fixed'')
                       (Some (PDict [(S ''message'', PStr msg), (S ''disk'', PObject (S ''Disk''))]))
                       (w\<lparr>trace := tr1\<rparr>) of
                  (r, w1) \<Rightarrow> (r, Some d1, w1))
           | (Some _, d1, tr1) \<Rightarrow> (None, Some d1, w\<lparr>trace := tr1\<rparr>)))"

definition get_smartctl_status :: "str \<Rightarrow> str" where
  "get_smartctl_status output = S ''old''"

definition smartctl_payload :: "str \<Rightarrow> pyval \<Rightarrow> bool \<Rightarrow> int \<Rightarrow> str \<Rightarrow> str \<Rightarrow> pyval" where
  "smartctl_payload dev status updated exitcode output stderr =
     PDict [(S ''disk'', PStr dev), (S ''status'', status), (S ''updated'', PBool updated),
            (S ''exitcode'', PInt exitcode), (S ''output'', PStr output), (S ''stderr'', PStr stderr)]"

text \<open>
  \<open>CommandRunner.get_smartctl\<close>. Only the status push is inside a \<open>try\<close>: its exception
  is logged and \<open>updated\<close> stays false.
\<close>

definition get_smartctl :: "host \<Rightarrow> str \<Rightarrow> int \<Rightarrow> world \<Rightarrow> (error + pyval) \<times> world" where
  "get_smartctl h dev the_id w =
     (let w0 = w\<lparr>trace := trace w @ [Smartctl dev]\<rparr> in
      case smartctl_proc h dev of
        Inl e \<Rightarrow> (Inl e, w0)
      | Inr (output, stderr, exitcode) \<Rightarrow>
          if exitcode = 0
          then (let status = get_smartctl_status output in
                case dict_get (disks w0) dev of
                  None \<Rightarrow> (Inr (smartctl_payload dev (PStr status) False exitcode output stderr), w0)
                | Some dk \<Rightarrow>
                    (case update_disk_if_needed the_id dk w0 of
                       (Some e, dk1, w1) \<Rightarrow> (Inl e, w1\<lparr>disks := dict_set (disks w1) dev dk1\<rparr>)
                     | (None, dk1, w1) \<Rightarrow>
                         (let w2 = w1\<lparr>disks := dict_set (disks w1) dev dk1\<rparr>;
                              pushed = (case dk1 of
                                          None \<Rightarrow> (Some AttributeError, trace w2)
                                        | Some d \<Rightarrow> Disk_update_status d status (trace w2))
                          in case pushed of
                               (None, tr) \<Rightarrow>
                                 (Inr (smartctl_payload dev (PStr status) True exitcode output stderr),
                                  w2\<lparr>trace := tr\<rparr>)
                             | (Some e, tr) \<Rightarrow>
                                 (Inr (smartctl_payload dev (PStr status) False exitcode output stderr),
                                  w2\<lparr>trace := tr @
                                     [Log WARNING (S ''['' @ str_of_int the_id @
                                        S ''] Cannot update status of '' @ dev @ S '' on tarallo'')
                                        (Some e)]\<rparr>))))
          else (Inr (smartctl_payload dev PNone False exitcode output stderr), w0))"

section \<open>The block-device enumeration: \<open>get_disks\<close>\<close>

text \<open>
  \<open>find_mounts\<close> collects the mount points of an element and of its children, depth
  first. Its recursion follows the nesting of the value, measured by \<open>depth\<close>: reading
  \<open>el["mountpoint"]\<close> succeeds only on a dictionary, and what the iteration over
  \<open>el["children"]\<close> yields is nested less deeply than \<open>el\<close>.
\<close>

fun depth :: "pyval \<Rightarrow> nat" where
  "depth (PList xs) = Suc (foldr max (map depth xs) 0)"
| "depth (PDict kvs) = Suc (foldr max (map (\<lambda>kv. depth (snd kv)) kvs) 0)"
| "depth _ = 0"

function find_mounts :: "pyval \<Rightarrow> error + pyval list"
  and find_mounts_children :: "pyval list \<Rightarrow> pyval list \<Rightarrow> error + pyval list" where
  "find_mounts el =
     (case py_getitem el (S ''mountpoint'') of
        Inl e \<Rightarrow> Inl e
      | Inr mp \<Rightarrow>
          (let mounts = (if mp \<noteq> PNone then [mp] else []) in
           case py_in (S ''children'') el of
             Inl e \<Rightarrow> Inl e
           | Inr b \<Rightarrow>
               if b
               then (case py_getitem el (S ''children'') of
                       Inl e \<Rightarrow> Inl e
                     | Inr children \<Rightarrow>
                         (case py_iter children of
                            Inl e \<Rightarrow> Inl e
                          | Inr cs \<Rightarrow> find_mounts_children cs mounts))
               else Inr mounts))"
| "find_mounts_children [] mounts = Inr mounts"
| "find_mounts_children (child # rest) mounts =
     (case find_mounts child of
        Inl e \<Rightarrow> Inl e
      | Inr m \<Rightarrow> find_mounts_children rest (mounts @ m))"
  by pat_completeness auto

termination
proof (relation "measures [\<lambda>x. case x of Inl el \<Rightarrow> 2 * depth el
                                      | Inr (cs, m) \<Rightarrow> Suc (2 * foldr max (map depth cs) 0),
                           \<lambda>x. case x of Inl el \<Rightarrow> 0 | Inr (cs, m) \<Rightarrow> length cs]", goal_cases)
  case 1
  then show ?case by simp
next
  case (2 el mp mounts b children cs)
  have below: "(f x :: nat) \<le> foldr max (map f xs) 0" if "x \<in> set xs" for f and x :: 'a and xs
    using that by (induction xs) (auto simp: le_max_iff_disj)
  have "depth children < depth el"
  proof (cases el)
    case (PDict kvs)
    with 2 have "map_of kvs (S ''children'') = Some children"
      by (simp add: dict_get_def split: option.splits)
    then have "(S ''children'', children) \<in> set kvs" by (rule map_of_SomeD)
    then have "depth (snd (S ''children'', children)) \<le> foldr max (map (\<lambda>kv. depth (snd kv)) kvs) 0"
      by (rule below)
    with PDict show ?thesis by simp
  qed (use 2 in simp_all)
  moreover have "foldr max (map depth cs) 0 \<le> depth children"
  proof -
    have "depth c \<le> depth children" if "c \<in> set cs" for c
    proof (cases children)
      case (PList xs)
      with 2 that have "c \<in> set xs" by simp
      then have "depth c \<le> foldr max (map depth xs) 0" by (rule below)
      with PList show ?thesis by simp
    qed (use 2 that in auto)
    then show ?thesis by (induction cs) (auto simp: max_def)
  qed
  ultimately show ?case by simp
next
  case (3 child rest mounts)
  then show ?case by (simp add: max_def)
next
  case (4 child rest mounts m)
  then show ?case by (simp add: max_def)
qed

declare find_mounts.simps [simp del]

text \<open>
  The body of the loop of \<open>get_disks\<close> on one element: where \<open>find_mounts\<close> has returned,
  the element is a dictionary; it loses \<open>children\<close> and \<open>name\<close> and gets the list of
  mount points.
\<close>

definition get_disks_el :: "pyval \<Rightarrow> error + pyval" where
  "get_disks_el el =
     (case find_mounts el of
        Inl e \<Rightarrow> Inl e
      | Inr mounts \<Rightarrow>
          (case el of
             PDict kvs \<Rightarrow>
               Inr (PDict (dict_set (dict_del (dict_del kvs (S ''children'')) (S ''name''))
                             (S ''mountpoint'') (PList mounts)))
           | _ \<Rightarrow> Inl TypeError))"

fun get_disks_els :: "pyval list \<Rightarrow> error + pyval list" where
  "get_disks_els [] = Inr []"
| "get_disks_els (el # els) =
     (case get_disks_el el of
        Inl e \<Rightarrow> Inl e
      | Inr el1 \<Rightarrow> (case get_disks_els els of Inl e \<Rightarrow> Inl e | Inr els1 \<Rightarrow> Inr (el1 # els1)))"

text \<open>
  \<open>get_disks\<close>. The scope handed to \<open>lsblk\<close> is the path, or nothing when the path is
  \<open>None\<close> or empty. The loop changes the elements of \<open>result\<close> in place, and \<open>result\<close> is
  returned.
\<close>

definition get_disks :: "host \<Rightarrow> str option \<Rightarrow> world \<Rightarrow> (error + pyval) \<times> world" where
  "get_disks h path w =
     (let scope = (case path of None \<Rightarrow> [] | Some pth \<Rightarrow> pth);
          w0 = w\<lparr>trace := trace w @ [Lsblk scope]\<rparr>
      in case lsblk_json h scope of
           Inl e \<Rightarrow> (Inl e, w0)
         | Inr jsonized \<Rightarrow>
             (case py_in (S ''blockdevices'') jsonized of
                Inl e \<Rightarrow> (Inl e, w0)
              | Inr b \<Rightarrow>
                  (case (if b then py_getitem jsonized (S ''blockdevices'') else Inr (PList [])) of
                     Inl e \<Rightarrow> (Inl e, w0)
                   | Inr result \<Rightarrow>
                       (case py_iter result of
                          Inl e \<Rightarrow> (Inl e, w0)
                        | Inr els \<Rightarrow>
                            (case get_disks_els els of
                               Inl e \<Rightarrow> (Inl e, w0)
                             | Inr els1 \<Rightarrow>
                                 (Inr (case result of PList _ \<Rightarrow> PList els1 | _ \<Rightarrow> result), w0))))))"

section \<open>The command \<open>get_disks\<close>\<close>

text \<open>
  The first \<open>if\<close> of the loop of \<open>get_disks_to_send\<close>, for a key whose entry is \<open>None\<close>:
  the enumeration scoped to the key, then its first element (or the empty result itself),
  then the constructor, whose exception is logged and leaves the entry as it is. The
  enumeration, \<open>len\<close> and the indexing are outside the \<open>try\<close>.
\<close>

definition populate :: "host \<Rightarrow> str \<Rightarrow> world \<Rightarrow> error option \<times> world" where
  "populate h disk w =
     (case get_disks h (Some disk) w of
        (Inl e, w1) \<Rightarrow> (Some e, w1)
      | (Inr lsblk0, w1) \<Rightarrow>
          (case py_len lsblk0 of
             Inl e \<Rightarrow> (Some e, w1)
           | Inr n \<Rightarrow>
               (case (if n > 0 then py_first lsblk0 else Inr lsblk0) of
                  Inl e \<Rightarrow> (Some e, w1)
                | Inr lsblk \<Rightarrow>
                    (case Disk_init lsblk (TARALLO w1) (trace w1) of
                       (Inl e, tr) \<Rightarrow>
                         (None, w1\<lparr>trace := tr @
                            [Log WARNING (S ''Error with disk '' @ disk @ S '' still remains'')
                               (Some e)]\<rparr>)
                     | (Inr d, tr) \<Rightarrow>
                         (None, w1\<lparr>disks := dict_set (disks w1) disk (Some d), trace := tr\<rparr>)))))"

text \<open>The loop of \<open>get_disks_to_send\<close> over the keys of the registry.\<close>

fun get_disks_loop :: "host \<Rightarrow> int \<Rightarrow> str list \<Rightarrow> pyval list \<Rightarrow> world \<Rightarrow> (error + pyval list) \<times> world" where
  "get_disks_loop h the_id [] result w = (Inr result, w)"
| "get_disks_loop h the_id (disk # rest) result w =
     (case dict_get (disks w) disk of
        None \<Rightarrow> (Inl (KeyError disk), w)
      | Some entry \<Rightarrow>
          (case (if entry = None then populate h disk w else (None, w)) of
             (Some e, w1) \<Rightarrow> (Inl e, w1)
           | (None, w1) \<Rightarrow>
               (case dict_get (disks w1) disk of
                  None \<Rightarrow> (Inl (KeyError disk), w1)
                | Some None \<Rightarrow> get_disks_loop h the_id rest result w1
                | Some (Some d) \<Rightarrow>
                    (case update_disk_if_needed the_id (Some d) w1 of
                       (Some e, dk, w2) \<Rightarrow> (Inl e, w2\<lparr>disks := dict_set (disks w2) disk dk\<rparr>)
                     | (None, None, w2) \<Rightarrow> (Inl AttributeError, w2)
                     | (None, Some d1, w2) \<Rightarrow>
                         (case Disk_serialize_disk d1 of
                            (ser, d2) \<Rightarrow>
                              get_disks_loop h the_id rest (result @ [ser])
                                (w2\<lparr>disks := dict_set (disks w2) disk (Some d2)\<rparr>))))))"

definition get_disks_to_send :: "host \<Rightarrow> int \<Rightarrow> world \<Rightarrow> (error + pyval) \<times> world" where
  "get_disks_to_send h the_id w =
     (case get_disks_loop h the_id (map fst (disks w)) [] w of
        (Inl e, w1) \<Rightarrow> (Inl e, w1)
      | (Inr result, w1) \<Rightarrow> (Inr (PList result), w1))"

section \<open>The alternate-OS enumeration: \<open>get_disks_win\<close>\<close>

text \<open>
  The two \<open>wmic\<close> listings are the inputs. The first two loops collect the labels (right
  stripped) and the sizes (as they are) of the lines that are neither the column title nor
  blank; the third walks the sizes with their index and reads \<open>label[idx]\<close>, which raises
  \<open>IndexError\<close> as soon as the index is past the labels.
\<close>

definition win_labels :: "str \<Rightarrow> str list" where
  "win_labels caption_out =
     map rstrip (filter (\<lambda>line. rstrip line \<noteq> S ''Caption'' \<and> rstrip line \<noteq> [])
                        (splitlines caption_out))"

definition win_sizes :: "str \<Rightarrow> str list" where
  "win_sizes size_out =
     filter (\<lambda>line. rstrip line \<noteq> S ''Size'' \<and> rstrip line \<noteq> []) (splitlines size_out)"

fun win_zip :: "str list \<Rightarrow> nat \<Rightarrow> str list \<Rightarrow> pyval list \<Rightarrow> error + pyval list" where
  "win_zip label idx [] drive = Inr drive"
| "win_zip label idx (line # rest) drive =
     (if idx < length label
      then win_zip label (Suc idx) rest (drive @ [PList [PStr (label ! idx), PStr line]])
      else Inl IndexError)"

definition get_disks_win :: "str \<Rightarrow> str \<Rightarrow> error + pyval" where
  "get_disks_win caption_out size_out =
     (case win_zip (win_labels caption_out) 0 (win_sizes size_out) [] of
        Inl e \<Rightarrow> Inl e
      | Inr drive \<Rightarrow> Inr (PList drive))"

section \<open>Dispatch: \<open>exec_command\<close> and \<open>run\<close>\<close>

text \<open>
  \<open>CommandRunner.exec_command\<close>: the command computes its payload, then the one call of
  \<open>send_msg\<close> at the end sends the reply. An exception of the command leaves the method
  before that call.
\<close>

definition exec_command :: "host \<Rightarrow> str \<Rightarrow> str \<Rightarrow> int \<Rightarrow> world \<Rightarrow> error option \<times> world" where
  "exec_command h cmd args the_id w =
     (let w0 = w\<lparr>trace := trace w @
                 [Log DEBUG (S ''['' @ str_of_int the_id @ S ''] Received command '' @ cmd @
                    (if length args > 0 then S '' with args'' else [])) None]\<rparr>
      in if cmd = S ''smartctl''
         then (case get_smartctl h args the_id w0 of
                 (Inl e, w1) \<Rightarrow> (Some e, w1)
               | (Inr param, w1) \<Rightarrow> send_msg the_id cmd (Some param) w1)
         else if cmd = S ''get_disks''
         then (case get_disks_to_send h the_id w0 of
                 (Inl e, w1) \<Rightarrow> (Some e, w1)
               | (Inr param, w1) \<Rightarrow> send_msg the_id cmd (Some param) w1)
         else if cmd = S ''get_disks_win''
         then (let w1 = w0\<lparr>trace := trace w0 @ [Wmic (S ''caption''), Wmic (S ''size'')]\<rparr> in
               case get_disks_win (wmic_caption h) (wmic_size h) of
                 Inl e \<Rightarrow> (Some e, w1)
               | Inr param \<Rightarrow> send_msg the_id cmd (Some param) w1)
         else if cmd = S ''ping''
         then send_msg the_id (S ''pong'') None w0
         else send_msg the_id (S ''error'')
                (Some (PDict [(S ''message'', PStr (S ''Unrecognized command'')),
                              (S ''command'', PStr cmd)])) w0)"

text \<open>
  \<open>CommandRunner.run\<close>: whatever \<open>exec_command\<close> raises is logged, and nothing else is
  done with it.
\<close>

definition run :: "host \<Rightarrow> str \<Rightarrow> str \<Rightarrow> int \<Rightarrow> world \<Rightarrow> world" where
  "run h cmd args the_id w =
     (case exec_command h cmd args the_id w of
        (None, w1) \<Rightarrow> w1
      | (Some e, w1) \<Rightarrow>
          w1\<lparr>trace := trace w1 @
             [Log ERROR (S ''['' @ str_of_int the_id @ S ''] BIG ERROR in command thread'')
                (Some e)]\<rparr>)"

section \<open>Concrete collaborators for the instances\<close>

text \<open>A lookup by feature is the only event that queries the inventory for codes.\<close>

definition is_lookup :: "event \<Rightarrow> bool" where
  "is_lookup ev = (case ev of GetCodes f v \<Rightarrow> True | _ \<Rightarrow> False)"

text \<open>
  An inventory with one item \<open>AB12\<close> for the serial \<open>ABC123\<close>, two items for the serial
  \<open>DUP1\<close> and none for any other; it takes a status only for \<open>AB12\<close>.
\<close>

definition demo_inventory :: tarallo where
  "demo_inventory =
     \<lparr>get_codes_by_feature = (\<lambda>f v.
          if f = S ''sn'' \<and> v = S ''ABC123'' then Inr [S ''AB12'']
          else if f = S ''sn'' \<and> v = S ''DUP1'' then Inr [S ''H1'', S ''H2'']
          else Inr []),
      get_item = (\<lambda>c depth. Inr (PDict [(S ''code'', PStr c)])),
      update_item_features = (\<lambda>c f.
          if c = S ''AB12'' then Inr True else Inl (ExternalError (S ''ItemNotFoundError'')))\<rparr>"

definition demo_disk :: "string \<Rightarrow> string option \<Rightarrow> string option \<Rightarrow> disk" where
  "demo_disk p serial c =
     \<lparr>d_lsblk = (S ''path'', PStr (S p)) #
                 (case serial of None \<Rightarrow> [] | Some sn \<Rightarrow> [(S ''serial'', PStr (S sn))]),
      d_path = S p, d_code = map_option S c, d_item = None,
      d_tarallo = Some demo_inventory\<rparr>"

text \<open>
  A host on which \<open>smartctl\<close> succeeds on \<open>/dev/sda\<close> and \<open>/dev/sdb\<close> and fails on any
  other device, \<open>lsblk\<close> knows \<open>/dev/sdc\<close> with one mounted partition and \<open>/dev/sdd\<close>
  with no serial (\<open>null\<close>) and nothing else, and \<open>wmic\<close> lists one label and two sizes. The world has one connection, number 0, whose
  delimiter has been found.
\<close>

definition demo_host :: host where
  "demo_host =
     \<lparr>smartctl_proc = (\<lambda>dev. if dev = S ''/dev/sda'' then Inr (S ''SMART overall-health: PASSED'', [], 0)
                              else if dev = S ''/dev/sdb'' then Inr (S ''ok'', [], 0)
                              else Inr ([], S ''Smartctl open device failed'', 2)),
      lsblk_json = (\<lambda>scope.
        if scope = S ''/dev/sdc''
        then Inr (PDict [(S ''blockdevices'',
               PList [PDict [(S ''name'', PStr (S ''sdc'')), (S ''path'', PStr (S ''/dev/sdc'')),
                             (S ''serial'', PStr (S ''WD-ABC123'')), (S ''mountpoint'', PNone),
                             (S ''children'',
                              PList [PDict [(S ''name'', PStr (S ''sdc1'')),
                                            (S ''mountpoint'', PStr (S ''/mnt''))]])]])])
        else if scope = S ''/dev/sdd''
        then Inr (PDict [(S ''blockdevices'',
               PList [PDict [(S ''name'', PStr (S ''sdd'')), (S ''path'', PStr (S ''/dev/sdd'')),
                             (S ''serial'', PNone), (S ''mountpoint'', PNone)]])])
        else Inr (PDict [(S ''blockdevices'', PList [])])),
      wmic_caption = S ''Caption\<newline>C:\<newline>'',
      wmic_size = S ''Size\<newline>100\<newline>200\<newline>''\<rparr>"

definition demo_world :: "(str \<times> disk option) list \<Rightarrow> world" where
  "demo_world reg =
     \<lparr>disks = reg,
      clients = [(0, TurboProtocol_init\<lparr>p_id := 0, delimiter_found := True\<rparr>)],
      TARALLO = Some demo_inventory,
      trace = []\<rparr>"


section \<open>The offline classification tool\<close>

text \<open>
  A path names nothing, a directory with its entries in the order \<open>os.listdir\<close> gives
  them, or a file with the lines a reader gets from it (each with its line end), or the
  exception that opening or reading it raises.
\<close>

datatype node = Missing | Dir "str list" | File "error + str list"

text \<open>What the operator types at a prompt; the end of the list is the end of the input.\<close>

datatype keyin = Typed str | CtrlC

text \<open>
  What the tool takes from outside: the file system, the order in which Python iterates
  over the set \<open>attributes\<close> (the language does not fix it), the lower-casing of the code
  points from 128 on, and the exception, if any, of the block that prints the attributes
  of a report (it converts values with \<open>int\<close> and divides them as floats; it changes no
  variable).
\<close>

record tool_env =
  fs :: "str \<Rightarrow> node"
  attributes :: "str list"
  t_ulower :: "nat \<Rightarrow> str"
  print_found :: "(str \<times> str) list \<Rightarrow> error option"

text \<open>The position of the first occurrence of \<open>sep\<close>, and \<open>s.split(sep, 1)\<close>.\<close>

definition find_sub :: "str \<Rightarrow> str \<Rightarrow> nat option" where
  "find_sub s sep = List.find (\<lambda>i. take (length sep) (drop i s) = sep) [0..<Suc (length s)]"

definition split_once :: "str \<Rightarrow> str \<Rightarrow> str list" where
  "split_once s sep =
     (case find_sub s sep of None \<Rightarrow> [s] | Some i \<Rightarrow> [take i s, drop (i + length sep) s])"

text \<open>\<open>line.split(" ")[-1]\<close>: what follows the last space.\<close>

definition last_field :: "str \<Rightarrow> str" where
  "last_field line = rev (takeWhile (\<lambda>c. c \<noteq> 32) (rev line))"

text \<open>The state of the scan of a report: the three section flags, \<open>found\<close> and \<open>errors\<close>.\<close>

record scan =
  info_section :: bool
  data_section :: bool
  errors_section :: bool
  found :: "(str \<times> str) list"
  errors :: nat

text \<open>The loop \<open>for attr in attributes\<close> on a line of the data section.\<close>

fun scan_attrs :: "str list \<Rightarrow> str \<Rightarrow> (str \<times> str) list \<Rightarrow> (str \<times> str) list" where
  "scan_attrs [] line fnd = fnd"
| "scan_attrs (attr # rest) line fnd =
     (if contains line attr
      then (let val = strip (last_field line);
                fnd1 = (if attr = S ''Power_On_Hours''
                        then dict_set fnd (S ''Power_On_Hours_Exact'') (S ''false'') else fnd);
                exact = (attr = S ''Power_On_Hours'' \<and> 104 \<in> set val);
                val1 = (if exact then takeWhile (\<lambda>c. c \<noteq> 104) val else val);
                fnd2 = (if exact then dict_set fnd1 (S ''Power_On_Hours_Exact'') (S ''true'')
                        else fnd1)
            in scan_attrs rest line (dict_set fnd2 attr (rstrip val1)))
      else scan_attrs rest line fnd)"

text \<open>
  The body of the loop over the lines. \<open>line.split('  ', 1)[1]\<close> raises \<open>IndexError\<close> on
  a line without two spaces in a row.
\<close>

definition second_part :: "str \<Rightarrow> error + str" where
  "second_part line =
     (case split_once line (S ''  '') of [a, b] \<Rightarrow> Inr b | _ \<Rightarrow> Inl IndexError)"

definition scan_line :: "str list \<Rightarrow> scan \<Rightarrow> str \<Rightarrow> error + scan" where
  "scan_line attrs st line =
     (if contains line (S ''=== START OF INFORMATION SECTION ==='')
      then Inr (st\<lparr>info_section := True, data_section := False, errors_section := False\<rparr>)
      else if contains line (S ''=== START OF READ SMART DATA SECTION ==='')
      then Inr (st\<lparr>info_section := False, data_section := True, errors_section := False\<rparr>)
      else if contains line (S ''SMART Error Log Version'')
      then Inr (st\<lparr>info_section := False, data_section := False, errors_section := True\<rparr>)
      else if info_section st
      then (case (if contains line (S ''Model Family:  '')
                  then (case second_part line of
                          Inl e \<Rightarrow> Inl e
                        | Inr val \<Rightarrow> Inr (st\<lparr>found := dict_set (found st) (S ''Model_Family'') (strip val)\<rparr>))
                  else Inr st) of
              Inl e \<Rightarrow> Inl e
            | Inr st1 \<Rightarrow>
                if contains line (S ''Serial Number'')
                then (case second_part line of
                        Inl e \<Rightarrow> Inl e
                      | Inr val \<Rightarrow>
                          Inr (st1\<lparr>found := dict_set (found st1) (S ''Serial_Number'') (strip val)\<rparr>))
                else Inr st1)
      else if data_section st
      then Inr (st\<lparr>found := scan_attrs attrs line (found st)\<rparr>)
      else if errors_section st
      then (if contains line (S ''Error: UNC'') then Inr (st\<lparr>errors := errors st + 1\<rparr>) else Inr st)
      else Inr st)"

fun scan_lines :: "str list \<Rightarrow> scan \<Rightarrow> str list \<Rightarrow> error + scan" where
  "scan_lines attrs st [] = Inr st"
| "scan_lines attrs st (line # rest) =
     (case scan_line attrs st line of Inl e \<Rightarrow> Inl e | Inr st1 \<Rightarrow> scan_lines attrs st1 rest)"

text \<open>
  The prompt loop of \<open>parse_file\<close>. \<open>input\<close> raises \<open>EOFError\<close> at the end of the input and
  \<open>KeyboardInterrupt\<close> when the operator interrupts. The list \<open>results\<close> is changed in
  place, so it is returned also when the loop is left by an exception.
\<close>

fun ask :: "(nat \<Rightarrow> str) \<Rightarrow> (str \<times> str) list \<Rightarrow> (str \<times> str) list list \<Rightarrow> keyin list \<Rightarrow>
            error option \<times> (str \<times> str) list list \<times> keyin list" where
  "ask ul fnd results [] = (Some EOFError, results, [])"
| "ask ul fnd results (CtrlC # rest) = (Some KeyboardInterrupt, results, rest)"
| "ask ul fnd results (Typed r # rest) =
     (if lower ul r = S ''k'' then (None, results @ [dict_set fnd (S ''Status'') (S ''OK'')], rest)
      else if lower ul r = S ''o'' then (None, results @ [dict_set fnd (S ''Status'') (S ''OLD'')], rest)
      else if lower ul r = S ''f'' then (None, results @ [dict_set fnd (S ''Status'') (S ''FAIL'')], rest)
      else if lower ul r = S ''x'' then (None, results, rest)
      else ask ul fnd results rest)"

text \<open>
  \<open>parse_file\<close>. The state it works on is the list \<open>results\<close>, the set \<open>serials\<close> and the
  input not yet read; all three are returned as an exception leaves them.
\<close>

record tool_state =
  results :: "(str \<times> str) list list"
  serials :: "str set"
  stdin :: "keyin list"

definition parse_file :: "tool_env \<Rightarrow> str \<Rightarrow> tool_state \<Rightarrow> error option \<times> tool_state" where
  "parse_file env filename ts =
     (case fs env filename of
        Missing \<Rightarrow> (Some (ExternalError (S ''FileNotFoundError'')), ts)
      | Dir names \<Rightarrow> (Some (ExternalError (S ''IsADirectoryError'')), ts)
      | File (Inl e) \<Rightarrow> (Some e, ts)
      | File (Inr lines) \<Rightarrow>
          (case scan_lines (attributes env)
                  \<lparr>info_section = False, data_section = False, errors_section = False,
                   found = [], errors = 0\<rparr> lines of
             Inl e \<Rightarrow> (Some e, ts)
           | Inr st \<Rightarrow>
               let fnd = dict_set (found st) (S ''Errors_UNC'') (str_of_nat (errors st)) in
               (case dict_get fnd (S ''Serial_Number'') of
                  Some sn \<Rightarrow>
                    if sn \<in> serials ts then (None, ts)
                    else (case print_found env fnd of
                            Some e \<Rightarrow> (Some e, ts\<lparr>serials := insert sn (serials ts)\<rparr>)
                          | None \<Rightarrow>
                              (case ask (t_ulower env) fnd (results ts) (stdin ts) of
                                 (r, res, inp) \<Rightarrow>
                                   (r, \<lparr>results = res, serials = insert sn (serials ts), stdin = inp\<rparr>)))
                | None \<Rightarrow>
                    (case print_found env fnd of
                       Some e \<Rightarrow> (Some e, ts)
                     | None \<Rightarrow>
                         (case ask (t_ulower env) fnd (results ts) (stdin ts) of
                            (r, res, inp) \<Rightarrow> (r, ts\<lparr>results := res, stdin := inp\<rparr>))))))"

text \<open>The two loops of \<open>get_files\<close>: over the entries of a directory and over the paths.\<close>

definition rstrip_slash :: "str \<Rightarrow> str" where
  "rstrip_slash s = rev (dropWhile (\<lambda>c. c = 47) (rev s))"

fun parse_dir :: "tool_env \<Rightarrow> str \<Rightarrow> str list \<Rightarrow> tool_state \<Rightarrow> error option \<times> tool_state" where
  "parse_dir env file [] ts = (None, ts)"
| "parse_dir env file (filename # rest) ts =
     (case parse_file env (rstrip_slash file @ S ''/'' @ filename) ts of
        (Some e, ts1) \<Rightarrow> (Some e, ts1)
      | (None, ts1) \<Rightarrow> parse_dir env file rest ts1)"

fun parse_paths :: "tool_env \<Rightarrow> str list \<Rightarrow> bool \<Rightarrow> tool_state \<Rightarrow> error option \<times> bool \<times> tool_state" where
  "parse_paths env [] errs ts = (None, errs, ts)"
| "parse_paths env (file # rest) errs ts =
     (case fs env file of
        Dir names \<Rightarrow>
          (case parse_dir env file names ts of
             (Some e, ts1) \<Rightarrow> (Some e, errs, ts1)
           | (None, ts1) \<Rightarrow> parse_paths env rest errs ts1)
      | File content \<Rightarrow>
          (case parse_file env file ts of
             (Some e, ts1) \<Rightarrow> (Some e, errs, ts1)
           | (None, ts1) \<Rightarrow> parse_paths env rest errs ts1)
      | Missing \<Rightarrow> parse_paths env rest True ts)"

text \<open>
  The header loop: a key other than \<open>Status\<close> is appended when it is not yet in
  \<open>header_set\<close>, which holds what \<open>header\<close> holds.
\<close>

fun add_keys :: "str list \<Rightarrow> str list \<Rightarrow> str list" where
  "add_keys [] header = header"
| "add_keys (k # ks) header =
     (if k \<noteq> S ''Status'' \<and> k \<notin> set header then add_keys ks (header @ [k])
      else add_keys ks header)"

definition build_header :: "(str \<times> str) list list \<Rightarrow> str list" where
  "build_header res = foldl (\<lambda>header result. add_keys (map fst result) header) [] res @ [S ''Status'']"

text \<open>
  \<open>DictWriter.writerow\<close>: a key of the row that is no field name raises \<open>ValueError\<close>; a
  field the row does not have is written empty. The CSV file is taken as its header
  and its rows of cells.
\<close>

definition writerow :: "str list \<Rightarrow> (str \<times> str) list \<Rightarrow> error + str list" where
  "writerow fieldnames result =
     (if \<exists>k \<in> set (map fst result). k \<notin> set fieldnames then Inl ValueError
      else Inr (map (\<lambda>k. case dict_get result k of None \<Rightarrow> [] | Some v \<Rightarrow> v) fieldnames))"

fun writerows :: "str list \<Rightarrow> (str \<times> str) list list \<Rightarrow> error + str list list" where
  "writerows fieldnames [] = Inr []"
| "writerows fieldnames (result # rest) =
     (case writerow fieldnames result of
        Inl e \<Rightarrow> Inl e
      | Inr row \<Rightarrow>
          (case writerows fieldnames rest of Inl e \<Rightarrow> Inl e | Inr rows \<Rightarrow> Inr (row # rows)))"

record csv_out =
  csv_header :: "str list"
  csv_rows :: "str list list"
  exit_status :: nat

text \<open>
  \<open>get_files\<close>. \<open>KeyboardInterrupt\<close> and \<open>EOFError\<close> end the loop and the CSV is written
  from the results gathered so far; any other exception leaves the function before the
  file is opened.
\<close>

definition get_files :: "tool_env \<Rightarrow> str list \<Rightarrow> keyin list \<Rightarrow> error + csv_out" where
  "get_files env paths inp =
     (case parse_paths env paths False \<lparr>results = [], serials = {}, stdin = inp\<rparr> of
        (r, errs, ts) \<Rightarrow>
          (case (case r of
                   None \<Rightarrow> None
                 | Some e \<Rightarrow> if e = KeyboardInterrupt \<or> e = EOFError then None else Some e) of
             Some e \<Rightarrow> Inl e
           | None \<Rightarrow>
               (case writerows (build_header (results ts)) (results ts) of
                  Inl e \<Rightarrow> Inl e
                | Inr rows \<Rightarrow>
                    Inr \<lparr>csv_header = build_header (results ts), csv_rows = rows,
                         exit_status = (if errs then 1 else 0)\<rparr>)))"

text \<open>
  The notions of the specification, stated on the input of a run and not on the
  variables of the program. The union of the attribute names in first-seen order: every
  name once, at the place of its first occurrence. The disposition the operator gives
  at a prompt: the first answer among \<open>k\<close>, \<open>o\<close>, \<open>f\<close> and \<open>x\<close> (in either case) typed
  before the input ends or is interrupted, and the input that is left after it; \<open>x\<close>
  discards, the other three stand for a status.
\<close>

definition first_seen :: "'a list \<Rightarrow> 'a list" where
  "first_seen xs = rev (remdups (rev xs))"

fun disposition :: "(nat \<Rightarrow> str) \<Rightarrow> keyin list \<Rightarrow> str option" where
  "disposition ul [] = None"
| "disposition ul (CtrlC # rest) = None"
| "disposition ul (Typed r # rest) =
     (if lower ul r \<in> {S ''k'', S ''o'', S ''f'', S ''x''} then Some (lower ul r)
      else disposition ul rest)"

fun after_answer :: "(nat \<Rightarrow> str) \<Rightarrow> keyin list \<Rightarrow> keyin list" where
  "after_answer ul [] = []"
| "after_answer ul (CtrlC # rest) = rest"
| "after_answer ul (Typed r # rest) =
     (if lower ul r \<in> {S ''k'', S ''o'', S ''f'', S ''x''} then rest
      else after_answer ul rest)"

definition status_name :: "str \<Rightarrow> str" where
  "status_name a = (if a = S ''k'' then S ''OK'' else if a = S ''o'' then S ''OLD'' else S ''FAIL'')"

text \<open>
  The report of a file: the attributes read from it, with the count of the \<open>UNC\<close>
  errors, or the exception that opening or reading it raises.
\<close>

definition report :: "tool_env \<Rightarrow> str \<Rightarrow> error + (str \<times> str) list" where
  "report env filename =
     (case fs env filename of
        Missing \<Rightarrow> Inl (ExternalError (S ''FileNotFoundError''))
      | Dir names \<Rightarrow> Inl (ExternalError (S ''IsADirectoryError''))
      | File (Inl e) \<Rightarrow> Inl e
      | File (Inr lines) \<Rightarrow>
          (case scan_lines (attributes env)
                  \<lparr>info_section = False, data_section = False, errors_section = False,
                   found = [], errors = 0\<rparr> lines of
             Inl e \<Rightarrow> Inl e
           | Inr st \<Rightarrow> Inr (dict_set (found st) (S ''Errors_UNC'') (str_of_nat (errors st)))))"

text \<open>
  The files of a run, in the order of the command line: a file for itself, a directory
  for its entries, and nothing for a path that is neither.
\<close>

definition listing :: "tool_env \<Rightarrow> str list \<Rightarrow> str list" where
  "listing env paths =
     concat (map (\<lambda>file. case fs env file of
                     Missing \<Rightarrow> []
                   | Dir names \<Rightarrow> map (\<lambda>filename. rstrip_slash file @ S ''/'' @ filename) names
                   | File content \<Rightarrow> [file]) paths)"

text \<open>
  The dispositions given in a run over the files \<open>files\<close>, each with its report, from the
  serial numbers seen so far and the input not yet read. A report whose serial number
  has been seen is skipped without a prompt. The run ends at the first file that cannot
  be read or printed and at the first prompt that gets no answer.
\<close>

fun given :: "tool_env \<Rightarrow> str list \<Rightarrow> str set \<Rightarrow> keyin list \<Rightarrow> ((str \<times> str) list \<times> str) list" where
  "given env [] seen inp = []"
| "given env (filename # rest) seen inp =
     (case report env filename of
        Inl e \<Rightarrow> []
      | Inr fnd \<Rightarrow>
          (case dict_get fnd (S ''Serial_Number'') of
             Some sn \<Rightarrow>
               if sn \<in> seen then given env rest seen inp
               else if print_found env fnd \<noteq> None then []
               else (case disposition (t_ulower env) inp of
                       None \<Rightarrow> []
                     | Some a \<Rightarrow>
                         (fnd, a) # given env rest (insert sn seen) (after_answer (t_ulower env) inp))
           | None \<Rightarrow>
               if print_found env fnd \<noteq> None then []
               else (case disposition (t_ulower env) inp of
                       None \<Rightarrow> []
                     | Some a \<Rightarrow> (fnd, a) # given env rest seen (after_answer (t_ulower env) inp))))"

text \<open>
  The labeled reports: the reports given a disposition other than a discard, in the
  order of the prompts, each with the status its disposition stands for under the key
  \<open>Status\<close>.
\<close>

definition with_status :: "((str \<times> str) list \<times> str) list \<Rightarrow> (str \<times> str) list list" where
  "with_status gs =
     map (\<lambda>(fnd, a). dict_set fnd (S ''Status'') (status_name a))
       (filter (\<lambda>(fnd, a). a \<noteq> S ''x'') gs)"

definition labeled :: "tool_env \<Rightarrow> str list \<Rightarrow> keyin list \<Rightarrow> (str \<times> str) list list" where
  "labeled env paths inp = with_status (given env (listing env paths) {} inp)"

definition cell :: "(str \<times> str) list \<Rightarrow> str \<Rightarrow> str" where
  "cell result k = (case dict_get result k of None \<Rightarrow> [] | Some v \<Rightarrow> v)"

text \<open>
  The names in the set \<open>attributes\<close> of \<open>parse_file\<close>, and a tool environment with two
  reports: the first has a model family, the second has none.
\<close>

definition attribute_names :: "str list" where
  "attribute_names =
     [S ''Start_Stop_Count'', S ''Reallocated_Sector_Ct'', S ''Seek_Error_Rate'',
      S ''Power_On_Hours'', S ''Power_Cycle_Count'', S ''SSD_Life_Left'',
      S ''Lifetime_Writes_GiB'', S ''Load_Cycle_Count'', S ''Reallocated_Event_Count'',
      S ''Current_Pending_Sector'', S ''Offline_Uncorrectable'']"

definition demo_tool :: tool_env where
  "demo_tool =
     \<lparr>fs = (\<lambda>p. if p = S ''a.txt''
                  then File (Inr [S ''=== START OF INFORMATION SECTION ===\<newline>'',
                                  S ''Model Family:     Foo\<newline>'',
                                  S ''Serial Number:    S1\<newline>''])
                  else if p = S ''b.txt''
                  then File (Inr [S ''=== START OF INFORMATION SECTION ===\<newline>'',
                                  S ''Serial Number:    S2\<newline>'',
                                  S ''=== START OF READ SMART DATA SECTION ===\<newline>'',
                                  S ''  9 Power_On_Hours  -  1234h+56m\<newline>''])
                  else Missing),
      attributes = attribute_names,
      t_ulower = (\<lambda>c. [c]),
      print_found = (\<lambda>fnd. None)\<rparr>"

section \<open>Properties of \<open>get_disks_win\<close>\<close>

lemma win_zip_ok:
  "idx + length sizes \<le> length label \<Longrightarrow>
   win_zip label idx sizes drive =
     Inr (drive @ map (\<lambda>(l, z). PList [PStr l, PStr z]) (zip (drop idx label) sizes))"
proof (induction sizes arbitrary: idx drive)
  case Nil
  then show ?case by simp
next
  case (Cons line rest)
  from Cons.prems have lt: "idx < length label" by simp
  then have d: "drop idx label = label ! idx # drop (Suc idx) label"
    by (simp add: Cons_nth_drop_Suc)
  from Cons.prems have "Suc idx + length rest \<le> length label" by simp
  from Cons.IH [OF this] lt d show ?case by simp
qed

lemma win_zip_fail:
  "idx \<le> length label \<Longrightarrow> length label < idx + length sizes \<Longrightarrow>
   win_zip label idx sizes drive = Inl IndexError"
proof (induction sizes arbitrary: idx drive)
  case Nil
  then show ?case by simp
next
  case (Cons line rest)
  show ?case
  proof (cases "idx < length label")
    case True
    with Cons.prems have "Suc idx \<le> length label" "length label < Suc idx + length rest"
      by simp_all
    from Cons.IH [OF this] True show ?thesis by simp
  next
    case False
    then show ?thesis by simp
  qed
qed

text \<open>
  C10. The result of \<open>get_disks_win\<close> is decided by the two list lengths. When there are
  at most as many sizes as labels it returns the pairs \<open>[label, size]\<close> in order, one per
  size, so its length is that of the size list and the labels past it are dropped. When
  the size list is strictly longer it returns nothing: it raises \<open>IndexError\<close>.
\<close>

theorem get_disks_win_length_or_index_error:
  "(length (win_sizes size_out) \<le> length (win_labels caption_out) \<longrightarrow>
      (\<exists>drive. get_disks_win caption_out size_out = Inr (PList drive) \<and>
         length drive = length (win_sizes size_out) \<and>
         drive = map (\<lambda>(l, z). PList [PStr l, PStr z])
                   (zip (take (length (win_sizes size_out)) (win_labels caption_out))
                        (win_sizes size_out)))) \<and>
   (length (win_labels caption_out) < length (win_sizes size_out) \<longrightarrow>
      get_disks_win caption_out size_out = Inl IndexError)"
proof (intro conjI impI)
  assume le: "length (win_sizes size_out) \<le> length (win_labels caption_out)"
  then have "win_zip (win_labels caption_out) 0 (win_sizes size_out) [] =
      Inr (map (\<lambda>(l, z). PList [PStr l, PStr z]) (zip (win_labels caption_out) (win_sizes size_out)))"
    using win_zip_ok [of 0 "win_sizes size_out" "win_labels caption_out" "[]"] by simp
  moreover have "zip (win_labels caption_out) (win_sizes size_out) =
      zip (take (length (win_sizes size_out)) (win_labels caption_out)) (win_sizes size_out)"
  proof -
    have "zip (win_labels caption_out) (win_sizes size_out) =
        take (length (win_sizes size_out)) (zip (win_labels caption_out) (win_sizes size_out))"
      by simp
    then show ?thesis by (simp only: take_zip take_all [OF order_refl])
  qed
  ultimately show "\<exists>drive. get_disks_win caption_out size_out = Inr (PList drive) \<and>
         length drive = length (win_sizes size_out) \<and>
         drive = map (\<lambda>(l, z). PList [PStr l, PStr z])
                   (zip (take (length (win_sizes size_out)) (win_labels caption_out))
                        (win_sizes size_out))"
    using le by (simp add: get_disks_win_def)
next
  assume "length (win_labels caption_out) < length (win_sizes size_out)"
  then show "get_disks_win caption_out size_out = Inl IndexError"
    using win_zip_fail [of 0 "win_labels caption_out" "win_sizes size_out" "[]"]
    by (simp add: get_disks_win_def)
qed

text \<open>
  Both branches at concrete listings: three labels against two sizes (the label \<open>E:\<close> is
  dropped), and one label against two sizes (the call raises).
\<close>

theorem get_disks_win_length_or_index_error_witness:
  "get_disks_win (S ''Caption  \<newline>C:       \<newline>D:       \<newline>E:       \<newline>'') (S ''Size\<newline>100\<newline>200\<newline>'') =
     Inr (PList [PList [PStr (S ''C:''), PStr (S ''100'')],
                 PList [PStr (S ''D:''), PStr (S ''200'')]]) \<and>
   get_disks_win (S ''Caption\<newline>C:\<newline>'') (S ''Size\<newline>100\<newline>200\<newline>'') = Inl IndexError"
  using get_disks_win_length_or_index_error
          [of "S ''Size\<newline>100\<newline>200\<newline>''" "S ''Caption  \<newline>C:       \<newline>D:       \<newline>E:       \<newline>''"]
        get_disks_win_length_or_index_error
          [of "S ''Size\<newline>100\<newline>200\<newline>''" "S ''Caption\<newline>C:\<newline>''"]
  by (simp add: S_def win_sizes_def win_labels_def splitlines_def rstrip_def is_space_def
        is_linebreak_def)

section \<open>Properties of identity resolution\<close>

lemma has_key_dict_get: "has_key kvs k \<longleftrightarrow> dict_get kvs k \<noteq> None"
  by (simp add: has_key_def dict_get_def map_of_eq_None_iff)

lemma get_item_code: "d_code (fst (snd (Disk_get_item d tr))) = d_code d"
  by (simp add: Disk_get_item_def split: option.splits sum.splits)

lemma get_item_keeps:
  "d_lsblk (fst (snd (Disk_get_item d tr))) = d_lsblk d"
  "d_tarallo (fst (snd (Disk_get_item d tr))) = d_tarallo d"
  "d_path (fst (snd (Disk_get_item d tr))) = d_path d"
  by (simp_all add: Disk_get_item_def split: option.splits sum.splits)

lemma get_item_trace:
  "\<exists>evs. snd (snd (Disk_get_item d tr)) = tr @ evs \<and> list_all (\<lambda>ev. \<not> is_lookup ev) evs"
  by (simp add: Disk_get_item_def is_lookup_def split: option.splits sum.splits)

lemma get_code_keeps:
  "d_lsblk (fst (snd (Disk_get_code b d tr))) = d_lsblk d"
  "d_tarallo (fst (snd (Disk_get_code b d tr))) = d_tarallo d"
  "d_path (fst (snd (Disk_get_code b d tr))) = d_path d"
  unfolding Disk_get_code_def
  by (simp_all add: Let_def split: option.split sum.split pyval.split)

text \<open>
  Run on two records with the same enumeration data and inventory, \<open>_get_code\<close> either
  assigns the same code to both or leaves the code of the second as it was.
\<close>

lemma get_code_again:
  assumes "d_tarallo d' = d_tarallo d" "d_lsblk d' = d_lsblk d" "d_path d' = d_path d"
  shows "d_code (fst (snd (Disk_get_code b d' tr'))) = d_code (fst (snd (Disk_get_code b d tr))) \<or>
         d_code (fst (snd (Disk_get_code b d' tr'))) = d_code d'"
  unfolding Disk_get_code_def using assms
  by (simp add: Let_def split: option.split sum.split pyval.split)

lemma update_code:
  "d_code (fst (snd (Disk_update_if_needed d tr))) =
     (if code_set d then d_code d else d_code (fst (snd (Disk_get_code True d tr))))"
  by (simp add: Disk_update_if_needed_def get_item_code split: prod.split option.split)

lemma update_keeps:
  "d_lsblk (fst (snd (Disk_update_if_needed d tr))) = d_lsblk d"
  "d_tarallo (fst (snd (Disk_update_if_needed d tr))) = d_tarallo d"
  "d_path (fst (snd (Disk_update_if_needed d tr))) = d_path d"
  by (simp_all add: Disk_update_if_needed_def get_item_keeps split: prod.split option.split)
     (metis get_code_keeps fst_conv snd_conv)+

lemmas demo_simps =
  demo_disk_def demo_inventory_def S_def has_key_def dict_get_def normalized_serial_def
  startswith_def join_def code_set_def

text \<open>
  C4. Whenever the inventory answers the lookup of a disk's normalized serial with more
  than one code, \<open>_get_code\<close> leaves the record with no code, whatever code it had and in
  both modes: with \<open>stop_on_error\<close> it raises the manually-fixable error that lists the
  codes, without it it returns silently. No code of the ambiguous set is ever stored.
\<close>

theorem ambiguous_lookup_assigns_no_code:
  assumes t: "d_tarallo d = Some t"
    and sn: "dict_get (d_lsblk d) (S ''serial'') = Some (PStr raw)"
    and codes: "get_codes_by_feature t (S ''sn'') (normalized_serial raw) = Inr codes"
    and many: "1 < length codes"
  shows "d_code (fst (snd (Disk_get_code stop_on_error d tr))) = None \<and>
         fst (Disk_get_code stop_on_error d tr) =
           (if stop_on_error
            then Some (ErrorThatCanBeManuallyFixed
                   (S ''Duplicate codes for '' @ d_path d @ S '': '' @ join (S '' '') codes @
                    S '', S/N is '' @ normalized_serial raw))
            else None)"
proof -
  from sn have k: "has_key (d_lsblk d) (S ''serial'')" by (simp add: has_key_dict_get)
  from many have l: "codes \<noteq> []" "length codes \<noteq> Suc 0" by auto
  show ?thesis
    unfolding Disk_get_code_def using t sn codes k l by (simp add: Let_def)
qed

text \<open>
  The disk \<open>/dev/sdb\<close> with the serial \<open>WD-DUP1\<close>, which the inventory knows twice, and a
  stale code \<open>H1\<close>: resolution clears the code and, in strict mode, raises.
\<close>

theorem ambiguous_lookup_assigns_no_code_witness:
  "d_code (fst (snd (Disk_get_code True (demo_disk ''/dev/sdb'' (Some ''WD-DUP1'') (Some ''H1'')) []))) = None \<and>
   fst (Disk_get_code True (demo_disk ''/dev/sdb'' (Some ''WD-DUP1'') (Some ''H1'')) []) =
     Some (ErrorThatCanBeManuallyFixed (S ''Duplicate codes for /dev/sdb: H1 H2, S/N is DUP1''))"
  using ambiguous_lookup_assigns_no_code
          [of "demo_disk ''/dev/sdb'' (Some ''WD-DUP1'') (Some ''H1'')" demo_inventory
              "S ''WD-DUP1''" "[S ''H1'', S ''H2'']" True "[]"]
  by (simp add: demo_simps)

text \<open>
  C9. With an inventory, a record whose enumeration data has no \<open>serial\<close> key is not left
  quietly unresolved in non-strict mode: \<open>_get_code\<close> sets the code to absent and then
  reads the missing key, so it raises \<open>KeyError\<close>. The constructor, which runs
  \<open>_get_code\<close> in that mode, therefore fails for every dictionary without a serial: with the
  \<open>KeyError\<close> when the path is there, and already at the path test when it is not.
\<close>

theorem missing_serial_raises_key_error:
  assumes ns: "\<not> has_key kvs (S ''serial'')"
  shows "(d_tarallo d = Some t \<and> d_lsblk d = kvs \<longrightarrow>
            Disk_get_code False d tr = (Some (KeyError (S ''serial'')), d\<lparr>d_code := None\<rparr>, tr)) \<and>
         (\<exists>e. fst (Disk_init (PDict kvs) (Some t) tr) = Inl e) \<and>
         (has_key kvs (S ''path'') \<longrightarrow>
            Disk_init (PDict kvs) (Some t) tr = (Inl (KeyError (S ''serial'')), tr))"
proof -
  have g: "Disk_get_code False d' tr = (Some (KeyError (S ''serial'')), d'\<lparr>d_code := None\<rparr>, tr)"
    if "d_tarallo d' = Some t" "d_lsblk d' = kvs" for d'
    using that ns by (simp add: Disk_get_code_def has_key_dict_get Let_def)
  have i: "Disk_init (PDict kvs) (Some t) tr = (Inl (KeyError (S ''serial'')), tr)"
    if "has_key kvs (S ''path'')"
  proof -
    from that obtain p where p: "dict_get kvs (S ''path'') = Some p"
      by (auto simp: has_key_dict_get)
    show ?thesis unfolding Disk_init_def using that p by (simp add: Let_def g)
  qed
  have "\<exists>e. fst (Disk_init (PDict kvs) (Some t) tr) = Inl e"
  proof (cases "has_key kvs (S ''path'')")
    case True
    then show ?thesis by (simp add: i)
  next
    case False
    then show ?thesis by (simp add: Disk_init_def)
  qed
  with g i show ?thesis by blast
qed

theorem missing_serial_raises_key_error_witness:
  "\<not> has_key [(S ''path'', PStr (S ''/dev/sdc''))] (S ''serial'') \<and>
   fst (Disk_get_code False (demo_disk ''/dev/sdc'' None None) []) = Some (KeyError (S ''serial'')) \<and>
   Disk_init (PDict [(S ''path'', PStr (S ''/dev/sdc''))]) (Some demo_inventory) [] =
     (Inl (KeyError (S ''serial'')), [])"
  using missing_serial_raises_key_error
          [of "[(S ''path'', PStr (S ''/dev/sdc''))]" "demo_disk ''/dev/sdc'' None None"
              demo_inventory "[]"]
  by (simp add: demo_simps)

text \<open>
  C5. A record whose code is set (true for Python: neither \<open>None\<close> nor empty) keeps it
  through \<open>update_if_needed\<close>, and the run extends the trace by no lookup of codes: the
  code is neither checked nor looked up again. For every record, running
  \<open>update_if_needed\<close> a second time on the result of a first run leaves the code the
  first run produced, the inventory being the same in both runs.
\<close>

theorem update_if_needed_keeps_set_code:
  "(code_set d \<longrightarrow>
      d_code (fst (snd (Disk_update_if_needed d tr))) = d_code d \<and>
      (\<exists>evs. snd (snd (Disk_update_if_needed d tr)) = tr @ evs \<and>
             list_all (\<lambda>ev. \<not> is_lookup ev) evs)) \<and>
   d_code (fst (snd (Disk_update_if_needed (fst (snd (Disk_update_if_needed d tr)))
                       (snd (snd (Disk_update_if_needed d tr)))))) =
     d_code (fst (snd (Disk_update_if_needed d tr)))"
proof (intro conjI impI)
  assume s: "code_set d"
  then show "d_code (fst (snd (Disk_update_if_needed d tr))) = d_code d"
    by (simp add: update_code)
  from s have "Disk_update_if_needed d tr = Disk_get_item d tr"
    by (simp add: Disk_update_if_needed_def)
  then show "\<exists>evs. snd (snd (Disk_update_if_needed d tr)) = tr @ evs \<and>
             list_all (\<lambda>ev. \<not> is_lookup ev) evs"
    using get_item_trace [of d tr] by simp
next
  let ?d1 = "fst (snd (Disk_update_if_needed d tr))"
  let ?tr1 = "snd (snd (Disk_update_if_needed d tr))"
  show "d_code (fst (snd (Disk_update_if_needed ?d1 ?tr1))) = d_code ?d1"
  proof (cases "code_set ?d1")
    case True
    then show ?thesis by (simp add: update_code)
  next
    case False
    have unset: "\<not> code_set d"
    proof
      assume "code_set d"
      then have "d_code ?d1 = d_code d" by (simp add: update_code)
      with \<open>code_set d\<close> False show False by (simp add: code_set_def)
    qed
    then have c1: "d_code ?d1 = d_code (fst (snd (Disk_get_code True d tr)))"
      by (simp add: update_code)
    from False have "d_code (fst (snd (Disk_update_if_needed ?d1 ?tr1))) =
        d_code (fst (snd (Disk_get_code True ?d1 ?tr1)))"
      by (simp add: update_code)
    moreover have "d_code (fst (snd (Disk_get_code True ?d1 ?tr1))) =
          d_code (fst (snd (Disk_get_code True d tr))) \<or>
        d_code (fst (snd (Disk_get_code True ?d1 ?tr1))) = d_code ?d1"
      by (rule get_code_again) (simp_all add: update_keeps)
    ultimately show ?thesis using c1 by auto
  qed
qed

text \<open>
  The disk \<open>/dev/sda\<close> holds the code \<open>XY99\<close>, which is not what the inventory would
  answer for its serial: the run keeps it and only fetches the item.
\<close>

theorem update_if_needed_keeps_set_code_witness:
  "code_set (demo_disk ''/dev/sda'' (Some ''WD-ABC123'') (Some ''XY99'')) \<and>
   d_code (fst (snd (Disk_update_if_needed (demo_disk ''/dev/sda'' (Some ''WD-ABC123'') (Some ''XY99'')) []))) =
     Some (S ''XY99'') \<and>
   snd (snd (Disk_update_if_needed (demo_disk ''/dev/sda'' (Some ''WD-ABC123'') (Some ''XY99'')) [])) =
     [GetItem (S ''XY99'') 0]"
  using update_if_needed_keeps_set_code
          [of "demo_disk ''/dev/sda'' (Some ''WD-ABC123'') (Some ''XY99'')" "[]"]
  by (simp add: demo_simps Disk_update_if_needed_def Disk_get_item_def)

section \<open>Properties of the command runner\<close>

lemma ascii_Nil [simp]: "ascii []"
  by (simp add: ascii_def)

lemma ascii_append [simp]: "ascii (a @ b) \<longleftrightarrow> ascii a \<and> ascii b"
  by (simp add: ascii_def)

lemma ascii_S [simp]: "list_all (\<lambda>c. of_char c < (128::nat)) cs \<Longrightarrow> ascii (S cs)"
  by (simp add: ascii_def S_def list_all_iff)

lemma ascii_join: "ascii sep \<Longrightarrow> list_all ascii xs \<Longrightarrow> ascii (join sep xs)"
  by (cases xs) (auto simp: join_def ascii_def list_all_iff)

lemma ascii_str_of_nat: "ascii (str_of_nat n)"
proof (induction n rule: str_of_nat.induct)
  case (1 n)
  show ?case
  proof (cases "n < 10")
    case True
    then show ?thesis by (subst str_of_nat.simps) (simp add: ascii_def)
  next
    case False
    have "n mod 10 < 10" by simp
    then have "48 + n mod 10 < 128" by arith
    with 1 False show ?thesis by (subst str_of_nat.simps) (simp add: ascii_def)
  qed
qed

lemma ascii_str_of_int: "ascii (str_of_int i)"
  using ascii_str_of_nat [of "nat (- i)"] ascii_str_of_nat [of "nat i"]
  by (simp add: str_of_int_def ascii_def)

lemma hex_digit_ascii: "n < 16 \<Longrightarrow> hex_digit n < 128"
  by (simp add: hex_digit_def)

lemma ascii_hex4: "ascii (hex4 n)"
  by (simp add: hex4_def ascii_def hex_digit_ascii)

lemma ascii_json_escape: "ascii (json_escape c)"
  by (simp add: json_escape_def ascii_hex4) (simp add: ascii_def S_def)

lemma ascii_json_string: "ascii (json_string s)"
proof -
  have "ascii (concat (map json_escape s))"
    by (induction s) (simp_all add: ascii_json_escape)
  then show ?thesis by (simp add: json_string_def)
qed

lemma json_dumps_ascii:
  "json_dumps v = Inr s \<Longrightarrow> ascii s"
  "json_dumps_list vs = Inr ss \<Longrightarrow> list_all ascii ss"
  "json_dumps_items kvs = Inr ts \<Longrightarrow> list_all ascii ts"
proof (induction v and vs and kvs arbitrary: s and ss and ts
       rule: json_dumps_json_dumps_list_json_dumps_items.induct)
  case 1
  then show ?case by (auto simp: ascii_def S_def)
next
  case (2 b)
  then show ?case by (auto simp: ascii_def S_def)
next
  case (3 i)
  then show ?case by (auto simp: ascii_str_of_int)
next
  case (4 s')
  then show ?case by (auto simp: ascii_json_string)
next
  case (5 xs)
  from "5.prems" obtain ys where y: "json_dumps_list xs = Inr ys"
    and s: "s = S ''['' @ join (S '','') ys @ S '']''"
    by (auto split: sum.splits)
  from "5.IH" [OF y] have "ascii (join (S '','') ys)"
    by (intro ascii_join) simp_all
  with s show ?case by (simp add: ascii_def S_def)
next
  case (6 kvs)
  from "6.prems" obtain ys where y: "json_dumps_items kvs = Inr ys"
    and s: "s = S ''{'' @ join (S '','') ys @ S ''}''"
    by (auto split: sum.splits)
  from "6.IH" [OF y] have "ascii (join (S '','') ys)"
    by (intro ascii_join) simp_all
  with s show ?case by (simp add: ascii_def S_def)
next
  case (7 c)
  then show ?case by simp
next
  case 8
  then show ?case by auto
next
  case (9 x xs)
  then show ?case by (auto split: sum.splits)
next
  case 10
  then show ?case by auto
next
  case (11 kv kvs)
  from "11.prems" obtain y ys where a: "json_dumps (snd kv) = Inr y"
    and b: "json_dumps_items kvs = Inr ys" and t: "ts = (json_string (fst kv) @ S '':'' @ y) # ys"
    by (auto split: sum.splits)
  have "ascii (S '':'')" by (simp add: ascii_def S_def)
  with "11.IH"(1) [OF a] "11.IH"(2) [OF a b] t show ?case
    by (simp add: ascii_json_string)
qed

lemma utf8_encode_ascii: "ascii s \<Longrightarrow> utf8_encode s = Some (map of_nat s)"
  by (induction s) (simp_all add: ascii_def utf8_encode_cp_def)

lemma encode_disk_object:
  "encode_param (PDict [(S ''message'', PStr msg), (S ''disk'', PObject c)]) = Inl TypeError"
  by (simp add: encode_param_def)

lemma send_msg_object:
  "send_msg the_id cmd (Some (PDict [(S ''message'', PStr msg), (S ''disk'', PObject c)])) w =
     (case dict_get (clients w) the_id of
        None \<Rightarrow> (None, w\<lparr>trace := trace w @
             [Log INFO (S ''['' @ str_of_int the_id @
                S ''] Connection already closed while trying to send '' @ cmd) None]\<rparr>)
      | Some thread \<Rightarrow> (Some TypeError, w))"
  by (simp add: send_msg_def encode_disk_object split: option.split)

lemma update_disk_clients:
  "clients (snd (snd (update_disk_if_needed the_id dk w))) = clients w"
  unfolding update_disk_if_needed_def
  by (simp add: send_msg_object split: option.split prod.split error.split)

lemma update_disk_clients':
  "update_disk_if_needed the_id dk w0 = (r, dk1, w1) \<Longrightarrow> clients w1 = clients w0"
  using update_disk_clients [of the_id dk w0] by simp

lemma get_smartctl_clients: "clients (snd (get_smartctl h dev the_id w)) = clients w"
  unfolding get_smartctl_def
  by (auto simp: Let_def split: sum.split prod.split option.split dest!: update_disk_clients')

lemma get_disks_clients: "clients (snd (get_disks h path w)) = clients w"
  unfolding get_disks_def
  by (simp add: Let_def split: sum.split)

lemma populate_clients: "clients (snd (populate h disk w)) = clients w"
proof -
  have g: "clients w1 = clients w" if "get_disks h (Some disk) w = (r, w1)" for r w1
    using get_disks_clients [of h "Some disk" w] that by simp
  show ?thesis
    unfolding populate_def
    by (auto simp: split: sum.split prod.split dest!: g)
qed

lemma populate_clients':
  "populate h disk w = (r, w1) \<Longrightarrow> clients w1 = clients w"
  using populate_clients [of h disk w] by simp

lemma get_disks_loop_clients:
  "clients (snd (get_disks_loop h the_id ks result w)) = clients w"
proof (induction ks arbitrary: result w)
  case Nil
  then show ?case by simp
next
  case (Cons disk rest)
  show ?case
    by (auto simp: Cons.IH split: option.split prod.split
          dest!: populate_clients' update_disk_clients')
qed

lemma send_msg_completes:
  assumes "send_msg c cmd param w = (None, w1)" and "ascii cmd"
  shows "case dict_get (clients w) c of
           None \<Rightarrow> clients w1 = clients w
         | Some p \<Rightarrow>
             if delimiter_found p
             then \<exists>line. clients w1 =
                    dict_set (clients w) c (p\<lparr>written := written p @ [line @ delimiter p]\<rparr>)
             else clients w1 = dict_set (clients w) c p"
proof (cases "dict_get (clients w) c")
  case None
  with assms show ?thesis by (auto simp: send_msg_def)
next
  case (Some p)
  from assms(1) Some obtain response where r: "ascii response"
    and w1: "clients w1 = dict_set (clients w) c (fst (TurboProtocol_send_msg p response))"
  proof (cases param)
    case None
    with assms Some that [of cmd] show ?thesis by (auto simp: send_msg_def)
  next
    case (Some pv)
    show ?thesis
    proof (cases "encode_param pv")
      case (Inl e)
      with assms \<open>dict_get (clients w) c = Some p\<close> Some show ?thesis
        by (simp add: send_msg_def)
    next
      case (Inr j)
      then have "ascii j" by (simp add: encode_param_def json_dumps_ascii(1))
      with assms \<open>dict_get (clients w) c = Some p\<close> Some Inr that [of "cmd @ S '' '' @ j"]
      show ?thesis by (auto simp: send_msg_def)
    qed
  qed
  from r have "utf8_encode response = Some (map of_nat response)" by (rule utf8_encode_ascii)
  with w1 Some show ?thesis
    by (auto simp: TurboProtocol_send_msg_def sendLine_def)
qed

lemma send_msg_raises:
  assumes "send_msg c cmd param w = (Some e, w1)"
  shows "w1 = w"
  using assms unfolding send_msg_def
  by (auto split: option.splits sum.splits)

lemma get_disks_to_send_clients: "clients (snd (get_disks_to_send h the_id w)) = clients w"
proof (cases "get_disks_loop h the_id (map fst (disks w)) [] w")
  case (Pair r w1)
  with get_disks_loop_clients [of h the_id "map fst (disks w)" "[]" w]
  show ?thesis by (cases r) (simp_all add: get_disks_to_send_def)
qed

lemma exec_command_shape:
  "\<exists>cmd' param w'. clients w' = clients w \<and> ascii cmd' \<and>
     (exec_command h cmd args the_id w = send_msg the_id cmd' param w' \<or>
      (\<exists>e. exec_command h cmd args the_id w = (Some e, w')))"
proof -
  let ?w0 = "w\<lparr>trace := trace w @
                 [Log DEBUG (S ''['' @ str_of_int the_id @ S ''] Received command '' @ cmd @
                    (if length args > 0 then S '' with args'' else [])) None]\<rparr>"
  have asc: "ascii (S ''smartctl'')" "ascii (S ''get_disks'')" "ascii (S ''get_disks_win'')"
    "ascii (S ''pong'')" "ascii (S ''error'')" by simp_all
  consider (a) "cmd = S ''smartctl''" | (b) "cmd \<noteq> S ''smartctl''" "cmd = S ''get_disks''"
    | (c) "cmd \<noteq> S ''smartctl''" "cmd \<noteq> S ''get_disks''" "cmd = S ''get_disks_win''"
    | (d) "cmd \<noteq> S ''smartctl''" "cmd \<noteq> S ''get_disks''" "cmd \<noteq> S ''get_disks_win''"
    by blast
  then show ?thesis
  proof cases
    case a
    with asc have ac: "ascii cmd" by simp
    obtain r w1 where g: "get_smartctl h args the_id ?w0 = (r, w1)" by (cases "get_smartctl h args the_id ?w0")
    with get_smartctl_clients [of h args the_id ?w0] have c: "clients w1 = clients w" by simp
    show ?thesis
    proof (cases r)
      case (Inl e)
      with a g have "exec_command h cmd args the_id w = (Some e, w1)"
        by (simp add: exec_command_def Let_def)
      with c ac show ?thesis by blast
    next
      case (Inr param)
      with a g have "exec_command h cmd args the_id w = send_msg the_id cmd (Some param) w1"
        by (simp add: exec_command_def Let_def)
      with c ac show ?thesis by blast
    qed
  next
    case b
    with asc have ac: "ascii cmd" by simp
    obtain r w1 where g: "get_disks_to_send h the_id ?w0 = (r, w1)" by (cases "get_disks_to_send h the_id ?w0")
    with get_disks_to_send_clients [of h the_id ?w0] have c: "clients w1 = clients w" by simp
    show ?thesis
    proof (cases r)
      case (Inl e)
      with b g have "exec_command h cmd args the_id w = (Some e, w1)"
        by (simp add: exec_command_def Let_def)
      with c ac show ?thesis by blast
    next
      case (Inr param)
      with b g have "exec_command h cmd args the_id w = send_msg the_id cmd (Some param) w1"
        by (simp add: exec_command_def Let_def)
      with c ac show ?thesis by blast
    qed
  next
    case c
    with asc have ac: "ascii cmd" by simp
    let ?w1 = "?w0\<lparr>trace := trace ?w0 @ [Wmic (S ''caption''), Wmic (S ''size'')]\<rparr>"
    have cl: "clients ?w1 = clients w" by simp
    show ?thesis
    proof (cases "get_disks_win (wmic_caption h) (wmic_size h)")
      case (Inl e)
      with c have "exec_command h cmd args the_id w = (Some e, ?w1)"
        by (simp add: exec_command_def Let_def)
      with cl ac show ?thesis by blast
    next
      case (Inr param)
      with c have "exec_command h cmd args the_id w = send_msg the_id cmd (Some param) ?w1"
        by (simp add: exec_command_def Let_def)
      with cl ac show ?thesis by blast
    qed
  next
    case d
    have cl: "clients ?w0 = clients w" by simp
    show ?thesis
    proof (cases "cmd = S ''ping''")
      case True
      with d have "exec_command h cmd args the_id w = send_msg the_id (S ''pong'') None ?w0"
        by (simp add: exec_command_def Let_def)
      with cl asc show ?thesis by blast
    next
      case False
      with d have "exec_command h cmd args the_id w = send_msg the_id (S ''error'')
                (Some (PDict [(S ''message'', PStr (S ''Unrecognized command'')),
                              (S ''command'', PStr cmd)])) ?w0"
        by (simp add: exec_command_def Let_def)
      with cl asc show ?thesis by blast
    qed
  qed
qed

text \<open>
  C1. \<open>run\<close> never lets an exception out, but it does not turn one into a reply. When
  \<open>exec_command\<close> raises, \<open>run\<close> writes the error record to the log and the client
  registry is what it was before the command: no connection has been sent anything. When
  \<open>exec_command\<close> returns and the originating connection is registered with its
  delimiter found, the registry differs from the one before the command by exactly one
  line written to that connection, which ends with its delimiter; nothing is written
  when the delimiter is not yet found, and the registry is unchanged when the connection
  is no longer registered.
\<close>

theorem run_replies_once_or_logs:
  "(exec_command h cmd args the_id w = (Some e, w1) \<longrightarrow>
      run h cmd args the_id w =
        w1\<lparr>trace := trace w1 @
           [Log ERROR (S ''['' @ str_of_int the_id @ S ''] BIG ERROR in command thread'') (Some e)]\<rparr> \<and>
      clients (run h cmd args the_id w) = clients w) \<and>
   (exec_command h cmd args the_id w = (None, w1) \<longrightarrow>
      run h cmd args the_id w = w1 \<and>
      (case dict_get (clients w) the_id of
         None \<Rightarrow> clients w1 = clients w
       | Some p \<Rightarrow>
           if delimiter_found p
           then \<exists>line. clients w1 =
                  dict_set (clients w) the_id (p\<lparr>written := written p @ [line @ delimiter p]\<rparr>)
           else clients w1 = dict_set (clients w) the_id p))"
proof (intro conjI impI)
  assume ex: "exec_command h cmd args the_id w = (Some e, w1)"
  then show "run h cmd args the_id w =
        w1\<lparr>trace := trace w1 @
           [Log ERROR (S ''['' @ str_of_int the_id @ S ''] BIG ERROR in command thread'') (Some e)]\<rparr>"
    by (simp add: run_def)
  from exec_command_shape [of w h cmd args the_id] obtain cmd' param w'
    where cl: "clients w' = clients w"
      and sh: "exec_command h cmd args the_id w = send_msg the_id cmd' param w' \<or>
               (\<exists>e. exec_command h cmd args the_id w = (Some e, w'))" by blast
  from sh ex have "send_msg the_id cmd' param w' = (Some e, w1) \<or> w1 = w'" by auto
  then have "clients w1 = clients w'"
    by (auto dest: send_msg_raises)
  with cl ex show "clients (run h cmd args the_id w) = clients w"
    by (simp add: run_def)
next
  assume ex: "exec_command h cmd args the_id w = (None, w1)"
  then show "run h cmd args the_id w = w1" by (simp add: run_def)
  from exec_command_shape [of w h cmd args the_id] obtain cmd' param w'
    where cl: "clients w' = clients w" and ac: "ascii cmd'"
      and sh: "exec_command h cmd args the_id w = send_msg the_id cmd' param w' \<or>
               (\<exists>e. exec_command h cmd args the_id w = (Some e, w'))" by blast
  from sh ex have "send_msg the_id cmd' param w' = (None, w1)" by auto
  from send_msg_completes [OF this ac] cl
  show "case dict_get (clients w) the_id of
         None \<Rightarrow> clients w1 = clients w
       | Some p \<Rightarrow>
           if delimiter_found p
           then \<exists>line. clients w1 =
                  dict_set (clients w) the_id (p\<lparr>written := written p @ [line @ delimiter p]\<rparr>)
           else clients w1 = dict_set (clients w) the_id p"
    by (auto split: option.splits if_splits)
qed

text \<open>
  \<open>ping\<close> on the registered connection writes the line \<open>pong\<close>; \<open>get_disks_win\<close> on one
  label and two sizes raises \<open>IndexError\<close> and writes nothing.
\<close>

lemmas eval_simps = demo_host_def demo_world_def demo_simps exec_command_def run_def send_msg_def
  TurboProtocol_init_def TurboProtocol_send_msg_def sendLine_def encode_param_def
  get_disks_win_def win_sizes_def win_labels_def splitlines_def rstrip_def is_space_def
  is_linebreak_def str_of_int_def str_of_nat.simps Let_def

theorem run_replies_once_or_logs_witness:
  "fst (exec_command demo_host (S ''ping'') [] 0 (demo_world [])) = None \<and>
   map (\<lambda>c. written (snd c)) (clients (run demo_host (S ''ping'') [] 0 (demo_world []))) =
     [[[0x70, 0x6F, 0x6E, 0x67, 0x0A]]] \<and>
   fst (exec_command demo_host (S ''get_disks_win'') [] 0 (demo_world [])) = Some IndexError \<and>
   map (\<lambda>c. written (snd c)) (clients (run demo_host (S ''get_disks_win'') [] 0 (demo_world []))) = [[]]"
  using run_replies_once_or_logs
          [where h = demo_host and cmd = "S ''ping''" and args = "[]" and the_id = 0
             and w = "demo_world []"
             and ?w1.0 = "snd (exec_command demo_host (S ''ping'') [] 0 (demo_world []))"]
        run_replies_once_or_logs
          [where h = demo_host and cmd = "S ''get_disks_win''" and args = "[]" and the_id = 0
             and w = "demo_world []" and e = IndexError
             and ?w1.0 = "snd (exec_command demo_host (S ''get_disks_win'') [] 0 (demo_world []))"]
  by (simp add: eval_simps utf8_encode_cp_def)


text \<open>
  A command that raises leaves its connection without any reply: the connection is
  registered and its delimiter is known, \<open>get_disks_win\<close> raises \<open>IndexError\<close>, and after
  \<open>run\<close> the registry is unchanged and the log ends with the error record.
\<close>

theorem run_fault_counterexample:
  "dict_get (clients (demo_world [])) 0 = Some (TurboProtocol_init\<lparr>p_id := 0, delimiter_found := True\<rparr>) \<and>
   fst (exec_command demo_host (S ''get_disks_win'') [] 0 (demo_world [])) = Some IndexError \<and>
   clients (run demo_host (S ''get_disks_win'') [] 0 (demo_world [])) = clients (demo_world []) \<and>
   trace (run demo_host (S ''get_disks_win'') [] 0 (demo_world [])) =
     [Log DEBUG (S ''[0] Received command get_disks_win'') None,
      Wmic (S ''caption''), Wmic (S ''size''),
      Log ERROR (S ''[0] BIG ERROR in command thread'') (Some IndexError)]"
  by (simp add: eval_simps)

text \<open>
  The JSON text of a \<open>smartctl\<close> payload, the line \<open>send_msg\<close> writes for an encodable
  parameter, and \<open>exec_command\<close> on the command \<open>smartctl\<close>.
\<close>

lemma smartctl_payload_text:
  \<open>json_dumps (PDict [(S ''disk'', PStr dev), (S ''status'', st), (S ''updated'', PBool False),
            (S ''exitcode'', PInt exitcode), (S ''output'', PStr output), (S ''stderr'', PStr stderr)]) =
   (case json_dumps st of
      Inl e \<Rightarrow> Inl e
    | Inr stxt \<Rightarrow>
        Inr (S ''{"disk":'' @ json_string dev @ S '',"status":'' @ stxt @
             S '',"updated":false,"exitcode":'' @ str_of_int exitcode @
             S '',"output":'' @ json_string output @ S '',"stderr":'' @ json_string stderr @ S ''}''))\<close>
  by (simp add: join_def json_string_def json_escape_def S_def split: sum.split)

lemma send_line:
  assumes c: "dict_get (clients w) the_id = Some p" and f: "delimiter_found p"
    and j: "json_dumps pv = Inr txt"
  shows "send_msg the_id (S ''smartctl'') (Some pv) w =
     (None, w\<lparr>clients := dict_set (clients w) the_id
                  (p\<lparr>written := written p @ [map of_nat (S ''smartctl '' @ txt) @ delimiter p]\<rparr>)\<rparr>)"
proof -
  have eq: "S ''smartctl'' @ S '' '' @ txt = S ''smartctl '' @ txt" by (simp add: S_def)
  from j have "ascii txt" by (rule json_dumps_ascii(1))
  then have "ascii (S ''smartctl '' @ txt)" by simp
  then have "utf8_encode (S ''smartctl '' @ txt) = Some (map of_nat (S ''smartctl '' @ txt))"
    by (rule utf8_encode_ascii)
  then have e: "utf8_encode (S ''smartctl'' @ S '' '' @ txt) = Some (map of_nat (S ''smartctl '' @ txt))"
    by (simp only: eq)
  show ?thesis using c f j
    by (simp add: send_msg_def encode_param_def TurboProtocol_send_msg_def sendLine_def e)
qed

lemma exec_smartctl:
  "exec_command h (S ''smartctl'') dev the_id w =
     (case get_smartctl h dev the_id
        (w\<lparr>trace := trace w @
          [Log DEBUG (S ''['' @ str_of_int the_id @ S ''] Received command smartctl'' @
             (if length dev > 0 then S '' with args'' else [])) None]\<rparr>) of
        (Inl e, w1) \<Rightarrow> (Some e, w1)
      | (Inr param, w1) \<Rightarrow> send_msg the_id (S ''smartctl'') (Some param) w1)"
proof -
  have sm: "S ''] Received command '' @ S ''smartctl'' @ x = S ''] Received command smartctl'' @ x" for x
    by (simp add: S_def)
  show ?thesis
    by (simp add: exec_command_def Let_def sm split del: if_split cong: if_cong)
qed

text \<open>
  C6. When \<open>smartctl\<close> exits with a code other than zero, \<open>get_smartctl\<close> returns the
  dictionary with the device, the status \<open>None\<close>, \<open>updated\<close> false, that exit code, the
  output and the error stream, and raises nothing; for a registered connection whose
  delimiter is known, \<open>exec_command\<close> then returns normally and the connection has been
  written exactly one more line, the tag \<open>smartctl\<close>, a space and that dictionary as JSON
  (\<open>"status":null,"updated":false\<close>, the exit code and the error stream in it). When
  \<open>smartctl\<close> exits with zero, the disk is tracked and the push of the status to the
  inventory raises, the exception is logged as a warning and the dictionary is returned
  with the status, \<open>updated\<close> false and the exit code 0; \<open>exec_command\<close> writes it to the
  connection in the same way, under the tag \<open>smartctl\<close>.
\<close>

theorem smartctl_failures_stay_in_payload:
  \<open>(smartctl_proc h dev = Inr (output, stderr, exitcode) \<and> exitcode \<noteq> 0 \<longrightarrow>
      get_smartctl h dev the_id w =
        (Inr (PDict [(S ''disk'', PStr dev), (S ''status'', PNone), (S ''updated'', PBool False),
                     (S ''exitcode'', PInt exitcode), (S ''output'', PStr output),
                     (S ''stderr'', PStr stderr)]),
         w\<lparr>trace := trace w @ [Smartctl dev]\<rparr>) \<and>
      (dict_get (clients w) the_id = Some p \<and> delimiter_found p \<longrightarrow>
         exec_command h (S ''smartctl'') dev the_id w =
           (None,
            w\<lparr>clients := dict_set (clients w) the_id
                   (p\<lparr>written := written p @
                        [map of_nat
                           (S ''smartctl {"disk":'' @ json_string dev @
                            S '',"status":null,"updated":false,"exitcode":'' @ str_of_int exitcode @
                            S '',"output":'' @ json_string output @
                            S '',"stderr":'' @ json_string stderr @ S ''}'') @
                         delimiter p]\<rparr>),
               trace := trace w @
                 [Log DEBUG (S ''['' @ str_of_int the_id @ S ''] Received command smartctl'' @
                    (if length dev > 0 then S '' with args'' else [])) None,
                  Smartctl dev]\<rparr>))) \<and>
   (smartctl_proc h dev = Inr (output, stderr, 0) \<and> dict_get (disks w) dev = Some dk \<and>
    update_disk_if_needed the_id dk (w\<lparr>trace := trace w @ [Smartctl dev]\<rparr>) = (None, Some d1, w1) \<and>
    d_tarallo d1 = Some t \<and> code_set d1 \<and>
    update_item_features t (the (d_code d1)) (PDict [(S ''smart-data'', PStr (S ''old''))]) = Inl e \<longrightarrow>
      get_smartctl h dev the_id w =
        (Inr (PDict [(S ''disk'', PStr dev), (S ''status'', PStr (S ''old'')),
                     (S ''updated'', PBool False), (S ''exitcode'', PInt 0),
                     (S ''output'', PStr output), (S ''stderr'', PStr stderr)]),
         w1\<lparr>disks := dict_set (disks w1) dev (Some d1),
            trace := trace w1 @
              [UpdateFeatures (the (d_code d1)) (PDict [(S ''smart-data'', PStr (S ''old''))]),
               Log WARNING (S ''['' @ str_of_int the_id @ S ''] Cannot update status of '' @ dev @
                  S '' on tarallo'') (Some e)]\<rparr>)) \<and>
   (get_smartctl h dev the_id
      (w\<lparr>trace := trace w @
          [Log DEBUG (S ''['' @ str_of_int the_id @ S ''] Received command smartctl'' @
             (if length dev > 0 then S '' with args'' else [])) None]\<rparr>) =
      (Inr (PDict [(S ''disk'', PStr dev), (S ''status'', PStr (S ''old'')),
                   (S ''updated'', PBool False), (S ''exitcode'', PInt 0),
                   (S ''output'', PStr output), (S ''stderr'', PStr stderr)]), w2) \<and>
    dict_get (clients w2) the_id = Some p \<and> delimiter_found p \<longrightarrow>
      exec_command h (S ''smartctl'') dev the_id w =
        (None,
         w2\<lparr>clients := dict_set (clients w2) the_id
                (p\<lparr>written := written p @
                     [map of_nat
                        (S ''smartctl {"disk":'' @ json_string dev @
                         S '',"status":"old","updated":false,"exitcode":0,"output":'' @
                         json_string output @
                         S '',"stderr":'' @ json_string stderr @ S ''}'') @
                      delimiter p]\<rparr>)\<rparr>))\<close>
proof (intro conjI impI)
  assume a: "smartctl_proc h dev = Inr (output, stderr, exitcode) \<and> exitcode \<noteq> 0"
  then have g: "get_smartctl h dev the_id w =
        (Inr (PDict [(S ''disk'', PStr dev), (S ''status'', PNone), (S ''updated'', PBool False),
                     (S ''exitcode'', PInt exitcode), (S ''output'', PStr output),
                     (S ''stderr'', PStr stderr)]),
         w\<lparr>trace := trace w @ [Smartctl dev]\<rparr>)" for w
    by (simp add: get_smartctl_def smartctl_payload_def Let_def)
  show "get_smartctl h dev the_id w =
        (Inr (PDict [(S ''disk'', PStr dev), (S ''status'', PNone), (S ''updated'', PBool False),
                     (S ''exitcode'', PInt exitcode), (S ''output'', PStr output),
                     (S ''stderr'', PStr stderr)]),
         w\<lparr>trace := trace w @ [Smartctl dev]\<rparr>)"
    by (rule g)
  assume c: "dict_get (clients w) the_id = Some p \<and> delimiter_found p"
  let ?w0 = "w\<lparr>trace := trace w @
          [Log DEBUG (S ''['' @ str_of_int the_id @ S ''] Received command smartctl'' @
             (if length dev > 0 then S '' with args'' else [])) None]\<rparr>"
  let ?pv = "PDict [(S ''disk'', PStr dev), (S ''status'', PNone), (S ''updated'', PBool False),
                     (S ''exitcode'', PInt exitcode), (S ''output'', PStr output),
                     (S ''stderr'', PStr stderr)]"
  have sm: "S ''] Received command '' @ S ''smartctl'' @ x = S ''] Received command smartctl'' @ x" for x
    by (simp add: S_def)
  have ex: "exec_command h (S ''smartctl'') dev the_id w =
      send_msg the_id (S ''smartctl'') (Some ?pv) (?w0\<lparr>trace := trace ?w0 @ [Smartctl dev]\<rparr>)"
    by (simp only: exec_smartctl g [of ?w0] prod.case sum.case)
  have j: \<open>json_dumps ?pv = Inr (S ''{"disk":'' @ json_string dev @
                            S '',"status":null,"updated":false,"exitcode":'' @ str_of_int exitcode @
                            S '',"output":'' @ json_string output @
                            S '',"stderr":'' @ json_string stderr @ S ''}'')\<close>
    by (simp only: smartctl_payload_text) (simp add: S_def)
  from c have c': "dict_get (clients (?w0\<lparr>trace := trace ?w0 @ [Smartctl dev]\<rparr>)) the_id = Some p"
    and f: "delimiter_found p" by simp_all
  show \<open>exec_command h (S ''smartctl'') dev the_id w =
           (None,
            w\<lparr>clients := dict_set (clients w) the_id
                   (p\<lparr>written := written p @
                        [map of_nat
                           (S ''smartctl {"disk":'' @ json_string dev @
                            S '',"status":null,"updated":false,"exitcode":'' @ str_of_int exitcode @
                            S '',"output":'' @ json_string output @
                            S '',"stderr":'' @ json_string stderr @ S ''}'') @
                         delimiter p]\<rparr>),
               trace := trace w @
                 [Log DEBUG (S ''['' @ str_of_int the_id @ S ''] Received command smartctl'' @
                    (if length dev > 0 then S '' with args'' else [])) None,
                  Smartctl dev]\<rparr>)\<close>
    unfolding ex send_line [OF c' f j] by (simp add: S_def)
next
  assume a: "smartctl_proc h dev = Inr (output, stderr, 0) \<and> dict_get (disks w) dev = Some dk \<and>
    update_disk_if_needed the_id dk (w\<lparr>trace := trace w @ [Smartctl dev]\<rparr>) = (None, Some d1, w1) \<and>
    d_tarallo d1 = Some t \<and> code_set d1 \<and>
    update_item_features t (the (d_code d1)) (PDict [(S ''smart-data'', PStr (S ''old''))]) = Inl e"
  then have push: "Disk_update_status d1 (S ''old'') tr0 =
      (Some e, tr0 @ [UpdateFeatures (the (d_code d1)) (PDict [(S ''smart-data'', PStr (S ''old''))])])" for tr0
    by (simp add: Disk_update_status_def Let_def)
  from a show "get_smartctl h dev the_id w =
        (Inr (PDict [(S ''disk'', PStr dev), (S ''status'', PStr (S ''old'')),
                     (S ''updated'', PBool False), (S ''exitcode'', PInt 0),
                     (S ''output'', PStr output), (S ''stderr'', PStr stderr)]),
         w1\<lparr>disks := dict_set (disks w1) dev (Some d1),
            trace := trace w1 @
              [UpdateFeatures (the (d_code d1)) (PDict [(S ''smart-data'', PStr (S ''old''))]),
               Log WARNING (S ''['' @ str_of_int the_id @ S ''] Cannot update status of '' @ dev @
                  S '' on tarallo'') (Some e)]\<rparr>)"
    by (simp add: get_smartctl_def smartctl_payload_def Let_def get_smartctl_status_def push)
next
  let ?pv = "PDict [(S ''disk'', PStr dev), (S ''status'', PStr (S ''old'')),
                   (S ''updated'', PBool False), (S ''exitcode'', PInt 0),
                   (S ''output'', PStr output), (S ''stderr'', PStr stderr)]"
  assume a: "get_smartctl h dev the_id
      (w\<lparr>trace := trace w @
          [Log DEBUG (S ''['' @ str_of_int the_id @ S ''] Received command smartctl'' @
             (if length dev > 0 then S '' with args'' else [])) None]\<rparr>) = (Inr ?pv, w2) \<and>
    dict_get (clients w2) the_id = Some p \<and> delimiter_found p"
  have sm: "S ''] Received command '' @ S ''smartctl'' @ x = S ''] Received command smartctl'' @ x" for x
    by (simp add: S_def)
  from a have ex: "exec_command h (S ''smartctl'') dev the_id w =
      send_msg the_id (S ''smartctl'') (Some ?pv) w2"
    by (simp only: exec_smartctl prod.case sum.case)
  have j: \<open>json_dumps ?pv = Inr (S ''{"disk":'' @ json_string dev @
                         S '',"status":"old","updated":false,"exitcode":0,"output":'' @
                         json_string output @
                         S '',"stderr":'' @ json_string stderr @ S ''}'')\<close>
    by (simp only: smartctl_payload_text)
       (simp add: S_def json_string_def json_escape_def str_of_int_def str_of_nat.simps)
  from a have c: "dict_get (clients w2) the_id = Some p" and f: "delimiter_found p" by simp_all
  show \<open>exec_command h (S ''smartctl'') dev the_id w =
        (None,
         w2\<lparr>clients := dict_set (clients w2) the_id
                (p\<lparr>written := written p @
                     [map of_nat
                        (S ''smartctl {"disk":'' @ json_string dev @
                         S '',"status":"old","updated":false,"exitcode":0,"output":'' @
                         json_string output @
                         S '',"stderr":'' @ json_string stderr @ S ''}'') @
                      delimiter p]\<rparr>)\<rparr>)\<close>
    unfolding ex send_line [OF c f j] by (simp add: S_def)
qed

lemmas eval2_simps = eval_simps get_smartctl_def update_disk_if_needed_def Disk_update_if_needed_def
  Disk_get_item_def Disk_update_status_def get_smartctl_status_def smartctl_payload_def

theorem smartctl_failures_stay_in_payload_witness:
  \<open>fst (get_smartctl demo_host (S ''/dev/sdz'') 0 (demo_world [])) =
     Inr (PDict [(S ''disk'', PStr (S ''/dev/sdz'')), (S ''status'', PNone),
                 (S ''updated'', PBool False), (S ''exitcode'', PInt 2),
                 (S ''output'', PStr []), (S ''stderr'', PStr (S ''Smartctl open device failed''))]) \<and>
   exec_command demo_host (S ''smartctl'') (S ''/dev/sdz'') 0 (demo_world []) =
     (None,
      (demo_world [])
        \<lparr>clients := [(0, TurboProtocol_init
             \<lparr>p_id := 0, delimiter_found := True,
              written := [map of_nat (S ''smartctl {"disk":"/dev/sdz","status":null,"updated":false,"exitcode":2,"output":"","stderr":"Smartctl open device failed"}'') @ [0x0A]]\<rparr>)],
         trace := [Log DEBUG (S ''[0] Received command smartctl with args'') None,
                   Smartctl (S ''/dev/sdz'')]\<rparr>) \<and>
   fst (get_smartctl demo_host (S ''/dev/sdb'') 0
          (demo_world [(S ''/dev/sdb'', Some (demo_disk ''/dev/sdb'' (Some ''X1'') (Some ''ZZ00'')))])) =
     Inr (PDict [(S ''disk'', PStr (S ''/dev/sdb'')), (S ''status'', PStr (S ''old'')),
                 (S ''updated'', PBool False), (S ''exitcode'', PInt 0),
                 (S ''output'', PStr (S ''ok'')), (S ''stderr'', PStr [])]) \<and>
   trace (snd (get_smartctl demo_host (S ''/dev/sdb'') 0
          (demo_world [(S ''/dev/sdb'', Some (demo_disk ''/dev/sdb'' (Some ''X1'') (Some ''ZZ00'')))]))) =
     [Smartctl (S ''/dev/sdb''), GetItem (S ''ZZ00'') 0,
      UpdateFeatures (S ''ZZ00'') (PDict [(S ''smart-data'', PStr (S ''old''))]),
      Log WARNING (S ''[0] Cannot update status of /dev/sdb on tarallo'')
        (Some (ExternalError (S ''ItemNotFoundError'')))] \<and>
   fst (exec_command demo_host (S ''smartctl'') (S ''/dev/sdb'') 0
          (demo_world [(S ''/dev/sdb'', Some (demo_disk ''/dev/sdb'' (Some ''X1'') (Some ''ZZ00'')))])) = None \<and>
   map (\<lambda>c. written (snd c))
     (clients (snd (exec_command demo_host (S ''smartctl'') (S ''/dev/sdb'') 0
          (demo_world [(S ''/dev/sdb'', Some (demo_disk ''/dev/sdb'' (Some ''X1'') (Some ''ZZ00'')))])))) =
     [[map of_nat (S ''smartctl {"disk":"/dev/sdb","status":"old","updated":false,"exitcode":0,"output":"ok","stderr":""}'') @ [0x0A]]]\<close>
proof -
  let ?p = "TurboProtocol_init\<lparr>p_id := 0, delimiter_found := True\<rparr>"
  let ?d = "demo_disk ''/dev/sdb'' (Some ''X1'') (Some ''ZZ00'')"
  let ?d1 = "?d\<lparr>d_item := Some (PDict [(S ''code'', PStr (S ''ZZ00''))])\<rparr>"
  let ?w = "demo_world [(S ''/dev/sdb'', Some ?d)]"
  let ?w1 = "?w\<lparr>trace := [Smartctl (S ''/dev/sdb''), GetItem (S ''ZZ00'') 0]\<rparr>"
  let ?w2 = "?w\<lparr>disks := [(S ''/dev/sdb'', Some ?d1)],
                 trace := [Log DEBUG (S ''[0] Received command smartctl with args'') None,
                           Smartctl (S ''/dev/sdb''), GetItem (S ''ZZ00'') 0,
                           UpdateFeatures (S ''ZZ00'') (PDict [(S ''smart-data'', PStr (S ''old''))]),
                           Log WARNING (S ''[0] Cannot update status of /dev/sdb on tarallo'')
                             (Some (ExternalError (S ''ItemNotFoundError'')))]\<rparr>"
  have a1: "smartctl_proc demo_host (S ''/dev/sdz'') = Inr ([], S ''Smartctl open device failed'', 2) \<and> (2::int) \<noteq> 0"
    by (simp add: demo_host_def S_def)
  have a2: "dict_get (clients (demo_world [])) 0 = Some ?p \<and> delimiter_found ?p"
    by (simp add: demo_world_def dict_get_def)
  have b1: "smartctl_proc demo_host (S ''/dev/sdb'') = Inr (S ''ok'', [], 0) \<and>
      dict_get (disks ?w) (S ''/dev/sdb'') = Some (Some ?d) \<and>
      update_disk_if_needed 0 (Some ?d) (?w\<lparr>trace := trace ?w @ [Smartctl (S ''/dev/sdb'')]\<rparr>) =
        (None, Some ?d1, ?w1) \<and>
      d_tarallo ?d1 = Some demo_inventory \<and> code_set ?d1 \<and>
      update_item_features demo_inventory (the (d_code ?d1)) (PDict [(S ''smart-data'', PStr (S ''old''))]) =
        Inl (ExternalError (S ''ItemNotFoundError''))"
    by (simp add: eval2_simps)
  have b2: "get_smartctl demo_host (S ''/dev/sdb'') 0
      (?w\<lparr>trace := trace ?w @
          [Log DEBUG (S ''['' @ str_of_int 0 @ S ''] Received command smartctl'' @
             (if length (S ''/dev/sdb'') > 0 then S '' with args'' else [])) None]\<rparr>) =
      (Inr (PDict [(S ''disk'', PStr (S ''/dev/sdb'')), (S ''status'', PStr (S ''old'')),
                   (S ''updated'', PBool False), (S ''exitcode'', PInt 0),
                   (S ''output'', PStr (S ''ok'')), (S ''stderr'', PStr [])]), ?w2) \<and>
      dict_get (clients ?w2) 0 = Some ?p \<and> delimiter_found ?p"
    by (simp add: eval2_simps)
  note A = smartctl_failures_stay_in_payload
      [where h = demo_host and dev = "S ''/dev/sdz''" and ?output = "[]"
         and stderr = "S ''Smartctl open device failed''" and exitcode = 2 and the_id = 0
         and w = "demo_world []" and p = ?p and ?w2.0 = "demo_world []" and ?w1.0 = "demo_world []"
         and dk = None and ?d1.0 = ?d and t = demo_inventory and e = TypeError]
  note B = smartctl_failures_stay_in_payload
      [where h = demo_host and dev = "S ''/dev/sdb''" and ?output = "S ''ok''"
         and stderr = "[]" and exitcode = 2 and the_id = 0
         and w = ?w and p = ?p and ?w2.0 = ?w2 and ?w1.0 = ?w1
         and dk = "Some ?d" and ?d1.0 = ?d1 and t = demo_inventory
         and e = "ExternalError (S ''ItemNotFoundError'')"]
  from A a1 a2 have A1: "get_smartctl demo_host (S ''/dev/sdz'') 0 (demo_world []) =
        (Inr (PDict [(S ''disk'', PStr (S ''/dev/sdz'')), (S ''status'', PNone), (S ''updated'', PBool False),
                     (S ''exitcode'', PInt 2), (S ''output'', PStr []),
                     (S ''stderr'', PStr (S ''Smartctl open device failed''))]),
         (demo_world [])\<lparr>trace := trace (demo_world []) @ [Smartctl (S ''/dev/sdz'')]\<rparr>)"
    by blast
  from A a1 a2 have A2: \<open>exec_command demo_host (S ''smartctl'') (S ''/dev/sdz'') 0 (demo_world []) =
           (None,
            (demo_world [])\<lparr>clients := dict_set (clients (demo_world [])) 0
                   (?p\<lparr>written := written ?p @
                        [map of_nat
                           (S ''smartctl {"disk":'' @ json_string (S ''/dev/sdz'') @
                            S '',"status":null,"updated":false,"exitcode":'' @ str_of_int 2 @
                            S '',"output":'' @ json_string [] @
                            S '',"stderr":'' @ json_string (S ''Smartctl open device failed'') @ S ''}'') @
                         delimiter ?p]\<rparr>),
               trace := trace (demo_world []) @
                 [Log DEBUG (S ''['' @ str_of_int 0 @ S ''] Received command smartctl'' @
                    (if length (S ''/dev/sdz'') > 0 then S '' with args'' else [])) None,
                  Smartctl (S ''/dev/sdz'')]\<rparr>)\<close>
    by blast
  from B b1 have B1: "get_smartctl demo_host (S ''/dev/sdb'') 0 ?w =
        (Inr (PDict [(S ''disk'', PStr (S ''/dev/sdb'')), (S ''status'', PStr (S ''old'')),
                     (S ''updated'', PBool False), (S ''exitcode'', PInt 0),
                     (S ''output'', PStr (S ''ok'')), (S ''stderr'', PStr [])]),
         ?w1\<lparr>disks := dict_set (disks ?w1) (S ''/dev/sdb'') (Some ?d1),
            trace := trace ?w1 @
              [UpdateFeatures (the (d_code ?d1)) (PDict [(S ''smart-data'', PStr (S ''old''))]),
               Log WARNING (S ''['' @ str_of_int 0 @ S ''] Cannot update status of '' @ S ''/dev/sdb'' @
                  S '' on tarallo'') (Some (ExternalError (S ''ItemNotFoundError'')))]\<rparr>)"
    by blast
  from B b2 have B2: \<open>exec_command demo_host (S ''smartctl'') (S ''/dev/sdb'') 0 ?w =
        (None,
         ?w2\<lparr>clients := dict_set (clients ?w2) 0
                (?p\<lparr>written := written ?p @
                     [map of_nat
                        (S ''smartctl {"disk":'' @ json_string (S ''/dev/sdb'') @
                         S '',"status":"old","updated":false,"exitcode":0,"output":'' @
                         json_string (S ''ok'') @
                         S '',"stderr":'' @ json_string [] @ S ''}'') @
                      delimiter ?p]\<rparr>)\<rparr>)\<close>
    by blast
  show ?thesis
    unfolding A1 A2 B1 B2
    by (simp add: demo_world_def demo_simps TurboProtocol_init_def json_string_def
          json_escape_def str_of_int_def str_of_nat.simps)

qed

text \<open>
  C3. With more than one inventory match for the normalized serial, the constructor
  (which resolves with \<open>stop_on_error\<close> false) returns a record without a code, raises
  nothing and logs nothing. \<open>update_if_needed\<close> on a record whose code is not set (which
  resolves with \<open>stop_on_error\<close> true) leaves the code unset and raises
  \<open>ErrorThatCanBeManuallyFixed\<close> with the duplicate codes in its message, and
  \<open>update_disk_if_needed\<close> catches it and calls \<open>send_msg\<close> with the tag
  \<open>error_that_can_be_manually_fixed\<close>.
\<close>

theorem ambiguity_silent_when_built_raised_when_updated:
  assumes sn: "dict_get kvs (S ''serial'') = Some (PStr raw)"
    and codes: "get_codes_by_feature t (S ''sn'') (normalized_serial raw) = Inr codes"
    and many: "1 < length codes"
  shows "(dict_get kvs (S ''path'') = Some pth \<longrightarrow>
            Disk_init (PDict kvs) (Some t) tr =
              (Inr \<lparr>d_lsblk = kvs, d_path = py_str pth, d_code = None, d_item = None,
                    d_tarallo = Some t\<rparr>,
               tr @ [GetCodes (S ''sn'') (normalized_serial raw)])) \<and>
         (d_lsblk d = kvs \<and> d_tarallo d = Some t \<and> \<not> code_set d \<longrightarrow>
            Disk_update_if_needed d tr =
              (Some (ErrorThatCanBeManuallyFixed
                       (S ''Duplicate codes for '' @ d_path d @ S '': '' @ join (S '' '') codes @
                        S '', S/N is '' @ normalized_serial raw)),
               d\<lparr>d_code := None\<rparr>, tr @ [GetCodes (S ''sn'') (normalized_serial raw)]) \<and>
            update_disk_if_needed the_id (Some d) w =
              (case send_msg the_id (S ''error_that_can_be_manually_fixed'')
                      (Some (PDict [(S ''message'',
                                     PStr (S ''Duplicate codes for '' @ d_path d @ S '': '' @
                                           join (S '' '') codes @ S '', S/N is '' @
                                           normalized_serial raw)),
                                    (S ''disk'', PObject (S ''Disk''))]))
                      (w\<lparr>trace := trace w @ [GetCodes (S ''sn'') (normalized_serial raw)]\<rparr>) of
                 (r, w1) \<Rightarrow> (r, Some (d\<lparr>d_code := None\<rparr>), w1)))"
proof -
  from many have l: "codes \<noteq> []" "length codes \<noteq> Suc 0" by auto
  from sn have k: "has_key kvs (S ''serial'')" by (simp add: has_key_dict_get)
  have g: "Disk_get_code b d' tr' =
      (if b then Some (ErrorThatCanBeManuallyFixed
                       (S ''Duplicate codes for '' @ d_path d' @ S '': '' @ join (S '' '') codes @
                        S '', S/N is '' @ normalized_serial raw)) else None,
       d'\<lparr>d_code := None\<rparr>, tr' @ [GetCodes (S ''sn'') (normalized_serial raw)])"
    if "d_lsblk d' = kvs" "d_tarallo d' = Some t" for b d' tr'
    unfolding Disk_get_code_def using that sn codes k l by (simp add: Let_def)
  have built: "Disk_init (PDict kvs) (Some t) tr =
              (Inr \<lparr>d_lsblk = kvs, d_path = py_str pth, d_code = None, d_item = None,
                    d_tarallo = Some t\<rparr>,
               tr @ [GetCodes (S ''sn'') (normalized_serial raw)])"
    if p: "dict_get kvs (S ''path'') = Some pth"
  proof -
    from p have hk: "has_key kvs (S ''path'')" by (simp add: has_key_dict_get)
    show ?thesis
      unfolding Disk_init_def using p hk
      by (simp add: Let_def g Disk_get_item_def code_set_def)
  qed
  have upd: "Disk_update_if_needed d tr' =
              (Some (ErrorThatCanBeManuallyFixed
                       (S ''Duplicate codes for '' @ d_path d @ S '': '' @ join (S '' '') codes @
                        S '', S/N is '' @ normalized_serial raw)),
               d\<lparr>d_code := None\<rparr>, tr' @ [GetCodes (S ''sn'') (normalized_serial raw)])"
    if "d_lsblk d = kvs \<and> d_tarallo d = Some t \<and> \<not> code_set d" for tr'
    using that by (simp add: Disk_update_if_needed_def g)
  have "update_disk_if_needed the_id (Some d) w =
              (case send_msg the_id (S ''error_that_can_be_manually_fixed'')
                      (Some (PDict [(S ''message'',
                                     PStr (S ''Duplicate codes for '' @ d_path d @ S '': '' @
                                           join (S '' '') codes @ S '', S/N is '' @
                                           normalized_serial raw)),
                                    (S ''disk'', PObject (S ''Disk''))]))
                      (w\<lparr>trace := trace w @ [GetCodes (S ''sn'') (normalized_serial raw)]\<rparr>) of
                 (r, w1) \<Rightarrow> (r, Some (d\<lparr>d_code := None\<rparr>), w1))"
    if "d_lsblk d = kvs \<and> d_tarallo d = Some t \<and> \<not> code_set d"
    using that by (simp add: update_disk_if_needed_def upd)
  with built upd show ?thesis by blast
qed

theorem ambiguity_silent_when_built_raised_when_updated_witness:
  "fst (Disk_init (PDict [(S ''path'', PStr (S ''/dev/sdb'')), (S ''serial'', PStr (S ''WD-DUP1''))])
          (Some demo_inventory) []) =
     Inr (demo_disk ''/dev/sdb'' (Some ''WD-DUP1'') None) \<and>
   fst (Disk_update_if_needed (demo_disk ''/dev/sdb'' (Some ''WD-DUP1'') None) []) =
     Some (ErrorThatCanBeManuallyFixed (S ''Duplicate codes for /dev/sdb: H1 H2, S/N is DUP1''))"
  using ambiguity_silent_when_built_raised_when_updated
          [of "[(S ''path'', PStr (S ''/dev/sdb'')), (S ''serial'', PStr (S ''WD-DUP1''))]"
              "S ''WD-DUP1''" demo_inventory "[S ''H1'', S ''H2'']" "PStr (S ''/dev/sdb'')" "[]"
              "demo_disk ''/dev/sdb'' (Some ''WD-DUP1'') None" 0 "demo_world []"]
  by (simp add: demo_simps py_str_def)

text \<open>
  The two halves the other way round: building the record of a disk with two inventory
  matches returns normally with nothing but the lookup in the trace, and re-resolving it
  raises, again with nothing logged.
\<close>

theorem ambiguity_counterexample:
  "Disk_init (PDict [(S ''path'', PStr (S ''/dev/sdb'')), (S ''serial'', PStr (S ''WD-DUP1''))])
          (Some demo_inventory) [] =
     (Inr (demo_disk ''/dev/sdb'' (Some ''WD-DUP1'') None), [GetCodes (S ''sn'') (S ''DUP1'')]) \<and>
   fst (Disk_update_if_needed (demo_disk ''/dev/sdb'' (Some ''WD-DUP1'') None) []) =
     Some (ErrorThatCanBeManuallyFixed (S ''Duplicate codes for /dev/sdb: H1 H2, S/N is DUP1'')) \<and>
   snd (snd (Disk_update_if_needed (demo_disk ''/dev/sdb'' (Some ''WD-DUP1'') None) [])) =
     [GetCodes (S ''sn'') (S ''DUP1'')]"
  by (simp add: demo_simps py_str_def Disk_init_def Disk_get_code_def Disk_get_item_def
        Disk_update_if_needed_def Let_def)





lemma manual_fix_report_not_encodable:
  assumes "dict_get (clients w) the_id = Some p"
    and "Disk_update_if_needed d (trace w) = (Some (ErrorThatCanBeManuallyFixed msg), d1, tr1)"
  shows "update_disk_if_needed the_id (Some d) w = (Some TypeError, Some d1, w\<lparr>trace := tr1\<rparr>)"
  using assms by (simp add: update_disk_if_needed_def send_msg_object)







section \<open>Properties of the connection protocol\<close>

lemma utf8_decode_Nil: "utf8_decode bs = Some [] \<Longrightarrow> bs = []"
  by (cases bs) (auto simp: Let_def split: if_splits list.splits)

lemma unat_13: "(unat (b :: 8 word) = 13) = (b = 0x0D)"
  by (simp add: word_unat_eq_iff)

lemma cont_not_cr: "is_cont b \<Longrightarrow> b \<noteq> 0x0D"
  by (auto simp: is_cont_def)

lemma utf8_decode_last:
  "utf8_decode bs = Some cs \<Longrightarrow> (cs \<noteq> [] \<and> last cs = 13) = (bs \<noteq> [] \<and> last bs = 0x0D)"
proof (induction bs arbitrary: cs rule: utf8_decode.induct)
  case 1
  then show ?case by simp
next
  case (2 b bs)
  let ?n = "unat b"
  consider (one) "?n < 0x80" | (two) "\<not> ?n < 0x80" "0xC2 \<le> ?n \<and> ?n \<le> 0xDF"
    | (three) "\<not> ?n < 0x80" "\<not> (0xC2 \<le> ?n \<and> ?n \<le> 0xDF)" "0xE0 \<le> ?n \<and> ?n \<le> 0xEF"
    | (four) "\<not> ?n < 0x80" "\<not> (0xC2 \<le> ?n \<and> ?n \<le> 0xDF)" "\<not> (0xE0 \<le> ?n \<and> ?n \<le> 0xEF)"
    by blast
  then show ?case
  proof cases
    case one
    with "2.prems" obtain cs' where d: "utf8_decode bs = Some cs'" and cs: "cs = ?n # cs'"
      by (auto simp: Let_def)
    from "2.IH"(1) [OF refl one d] have ih: "(cs' \<noteq> [] \<and> last cs' = 13) = (bs \<noteq> [] \<and> last bs = 0x0D)" .
    have e: "(cs' = []) = (bs = [])" using d utf8_decode_Nil by auto
    show ?thesis using cs ih e unat_13 [of b] by auto
  next
    case two
    with "2.prems" obtain b1 r cs' where bs: "bs = b1 # r" and c: "is_cont b1"
      and d: "utf8_decode r = Some cs'" and cs: "cs = ((?n - 0xC0) * 64 + cont b1) # cs'"
      by (auto simp: Let_def split: list.splits if_splits)
    from "2.IH"(2) [OF refl two bs c d]
    have ih: "(cs' \<noteq> [] \<and> last cs' = 13) = (r \<noteq> [] \<and> last r = 0x0D)" .
    have e: "(cs' = []) = (r = [])" using d utf8_decode_Nil by auto
    have big: "(?n - 0xC0) * 64 + cont b1 \<noteq> 13" using two by arith
    show ?thesis using cs bs ih e big cont_not_cr [OF c] by auto
  next
    case three
    with "2.prems" obtain b1 b2 r cs' where bs: "bs = b1 # b2 # r"
      and c: "is_cont b1 \<and> is_cont b2 \<and> (?n = 0xE0 \<longrightarrow> 0xA0 \<le> unat b1) \<and> (?n = 0xED \<longrightarrow> unat b1 \<le> 0x9F)"
      and d: "utf8_decode r = Some cs'"
      and cs: "cs = ((?n - 0xE0) * 4096 + cont b1 * 64 + cont b2) # cs'"
      by (auto simp: Let_def split: list.splits if_splits)
    from "2.IH"(3) [OF refl three bs refl c d]
    have ih: "(cs' \<noteq> [] \<and> last cs' = 13) = (r \<noteq> [] \<and> last r = 0x0D)" .
    have e: "(cs' = []) = (r = [])" using d utf8_decode_Nil by auto
    have big: "(?n - 0xE0) * 4096 + cont b1 * 64 + cont b2 \<noteq> 13"
      using three c unfolding cont_def is_cont_def by arith
    show ?thesis using cs bs ih e big c cont_not_cr [of b2] by auto
  next
    case four
    show ?thesis
    proof (cases "0xF0 \<le> ?n \<and> ?n \<le> 0xF4")
      case True
      with four "2.prems" obtain b1 b2 b3 r cs' where bs: "bs = b1 # b2 # b3 # r"
        and c: "is_cont b1 \<and> is_cont b2 \<and> is_cont b3 \<and> (?n = 0xF0 \<longrightarrow> 0x90 \<le> unat b1) \<and>
                (?n = 0xF4 \<longrightarrow> unat b1 \<le> 0x8F)"
        and d: "utf8_decode r = Some cs'"
        and cs: "cs = ((?n - 0xF0) * 262144 + cont b1 * 4096 + cont b2 * 64 + cont b3) # cs'"
        by (auto simp: Let_def split: list.splits if_splits)
      from "2.IH"(4) [OF refl four True bs refl refl c d]
      have ih: "(cs' \<noteq> [] \<and> last cs' = 13) = (r \<noteq> [] \<and> last r = 0x0D)" .
      have e: "(cs' = []) = (r = [])" using d utf8_decode_Nil by auto
      have big: "(?n - 0xF0) * 262144 + cont b1 * 4096 + cont b2 * 64 + cont b3 \<noteq> 13"
        using True c unfolding cont_def is_cont_def by arith
      show ?thesis using cs bs ih e big c cont_not_cr [of b3] by auto
    next
      case False
      have "utf8_decode (b # bs) = None"
        using four(1) four(2) four(3) False by (simp only: utf8_decode.simps Let_def if_False)
      with "2.prems" show ?thesis by simp
    qed
  qed
qed

lemma lineReceived_dropped:
  "utf8_decode raw = None \<Longrightarrow> fst (lineReceived ul p raw) = p"
  by (simp add: lineReceived_def)

lemma lineReceived_found:
  assumes "delimiter_found p"
  shows "delimiter (fst (lineReceived ul p raw)) = delimiter p \<and>
         delimiter_found (fst (lineReceived ul p raw)) \<and>
         written (fst (lineReceived ul p raw)) = written p"
  using assms by (simp add: lineReceived_def Let_def split: option.split)

lemma lineReceived_first:
  assumes "\<not> delimiter_found p" and d: "utf8_decode raw = Some line"
  shows "delimiter (fst (lineReceived ul p raw)) =
           (if raw \<noteq> [] \<and> last raw = 0x0D then [0x0D, 0x0A] else delimiter p) \<and>
         delimiter_found (fst (lineReceived ul p raw)) \<and>
         written (fst (lineReceived ul p raw)) = written p"
proof -
  have "(0 < length line \<and> last line = 13) = (raw \<noteq> [] \<and> last raw = 0x0D)"
    using utf8_decode_last [OF d] by simp
  then show ?thesis using assms by (simp add: lineReceived_def Let_def)
qed

lemma send_msg_found:
  assumes "delimiter_found p"
  shows "delimiter (fst (TurboProtocol_send_msg p r)) = delimiter p \<and>
         delimiter_found (fst (TurboProtocol_send_msg p r)) \<and>
         (\<exists>ws. written (fst (TurboProtocol_send_msg p r)) = written p @ ws \<and>
               list_all (suffix (delimiter p)) ws)"
  using assms by (simp add: TurboProtocol_send_msg_def sendLine_def suffix_def split: option.split)

lemma send_msg_not_found:
  "\<not> delimiter_found p \<Longrightarrow> fst (TurboProtocol_send_msg p r) = p"
  by (simp add: TurboProtocol_send_msg_def)

lemma conn_run_found:
  "delimiter_found p \<Longrightarrow>
   delimiter (conn_run ul p evs) = delimiter p \<and> delimiter_found (conn_run ul p evs) \<and>
   (\<exists>ws. written (conn_run ul p evs) = written p @ ws \<and> list_all (suffix (delimiter p)) ws)"
proof (induction evs arbitrary: p)
  case Nil
  then show ?case by (simp add: conn_run_def)
next
  case (Cons ev evs)
  let ?p1 = "conn_step ul p ev"
  have step: "delimiter ?p1 = delimiter p \<and> delimiter_found ?p1 \<and>
      (\<exists>ws. written ?p1 = written p @ ws \<and> list_all (suffix (delimiter p)) ws)"
  proof (cases ev)
    case (LineIn raw)
    with lineReceived_found [OF Cons.prems, of ul raw] show ?thesis by simp
  next
    case (Deliver r)
    with send_msg_found [OF Cons.prems, of r] show ?thesis by simp
  qed
  then obtain ws1 where w1: "written ?p1 = written p @ ws1" "list_all (suffix (delimiter p)) ws1"
    by blast
  from step have f1: "delimiter_found ?p1" and d1: "delimiter ?p1 = delimiter p" by simp_all
  from Cons.IH [OF f1] d1 obtain ws2 where
    r: "delimiter (conn_run ul ?p1 evs) = delimiter p" "delimiter_found (conn_run ul ?p1 evs)"
       "written (conn_run ul ?p1 evs) = written ?p1 @ ws2" "list_all (suffix (delimiter p)) ws2"
    by auto
  have "conn_run ul p (ev # evs) = conn_run ul ?p1 evs" by (simp add: conn_run_def)
  with r w1 show ?case by auto
qed

lemma conn_run_inert:
  "\<not> delimiter_found p \<Longrightarrow> list_all inert pre \<Longrightarrow> conn_run ul p pre = p"
proof (induction pre)
  case Nil
  then show ?case by (simp add: conn_run_def)
next
  case (Cons ev pre)
  have "conn_step ul p ev = p"
  proof (cases ev)
    case (LineIn raw)
    with Cons.prems show ?thesis by (simp add: inert_def lineReceived_dropped)
  next
    case (Deliver r)
    with Cons.prems show ?thesis by (simp add: send_msg_not_found)
  qed
  with Cons show ?case by (simp add: conn_run_def)
qed

text \<open>
  C2. On a connection whose delimiter has not been found, the lines that are not UTF-8
  and the deliveries that come first change nothing and write nothing. The first line
  that decodes fixes the mode: carriage return and newline if its last byte is a carriage
  return, the delimiter the protocol started with (newline) otherwise. Whatever lines and
  deliveries follow, the delimiter stays that one and every line written to the transport
  ends with it.
\<close>

theorem delimiter_fixed_by_first_decoded_line:
  assumes nf: "\<not> delimiter_found p" and pre: "list_all inert pre"
    and dec: "utf8_decode raw = Some line"
  shows "conn_run ul p pre = p \<and>
         delimiter_found (conn_run ul p (pre @ LineIn raw # post)) \<and>
         delimiter (conn_run ul p (pre @ LineIn raw # post)) =
           (if raw \<noteq> [] \<and> last raw = 0x0D then [0x0D, 0x0A] else delimiter p) \<and>
         (\<exists>ws. written (conn_run ul p (pre @ LineIn raw # post)) = written p @ ws \<and>
               list_all (suffix (if raw \<noteq> [] \<and> last raw = 0x0D then [0x0D, 0x0A]
                                 else delimiter p)) ws)"
proof -
  let ?D = "if raw \<noteq> [] \<and> last raw = 0x0D then [0x0D, 0x0A] else delimiter p"
  let ?p1 = "fst (lineReceived ul p raw)"
  have a: "conn_run ul p pre = p" using nf pre by (rule conn_run_inert)
  have "conn_run ul p (pre @ LineIn raw # post) = conn_run ul (conn_run ul p pre) (LineIn raw # post)"
    by (simp add: conn_run_def)
  with a have b: "conn_run ul p (pre @ LineIn raw # post) = conn_run ul ?p1 post"
    by (simp add: conn_run_def)
  from lineReceived_first [OF nf dec, of ul]
  have f: "delimiter ?p1 = ?D" "delimiter_found ?p1" "written ?p1 = written p" by simp_all
  from conn_run_found [OF f(2), of ul post] f(1) f(3) a b show ?thesis by simp
qed

lemmas conn_simps = conn_run_def lineReceived_def TurboProtocol_send_msg_def TurboProtocol_init_def
  sendLine_def utf8_encode_cp_def is_cont_def cont_def inert_def S_def strip_def lstrip_def
  rstrip_def is_space_def startswith_def split1_def lower_def Let_def

theorem delimiter_fixed_by_first_decoded_line_witness:
  "conn_run (\<lambda>c. [c]) TurboProtocol_init [LineIn [0xFF, 0x0D], Deliver (S ''pong'')] = TurboProtocol_init \<and>
   delimiter (conn_run (\<lambda>c. [c]) TurboProtocol_init
      ([LineIn [0xFF, 0x0D], Deliver (S ''pong'')] @ LineIn [0x70, 0x69, 0x6E, 0x67, 0x0D] #
       [Deliver (S ''pong''), LineIn [0x70, 0x69, 0x6E, 0x67], Deliver (S ''pong'')])) = [0x0D, 0x0A] \<and>
   written (conn_run (\<lambda>c. [c]) TurboProtocol_init
      ([LineIn [0xFF, 0x0D], Deliver (S ''pong'')] @ LineIn [0x70, 0x69, 0x6E, 0x67, 0x0D] #
       [Deliver (S ''pong''), LineIn [0x70, 0x69, 0x6E, 0x67], Deliver (S ''pong'')])) =
     [[0x70, 0x6F, 0x6E, 0x67, 0x0D, 0x0A], [0x70, 0x6F, 0x6E, 0x67, 0x0D, 0x0A]]"
  using delimiter_fixed_by_first_decoded_line
          [where p = TurboProtocol_init and pre = "[LineIn [0xFF, 0x0D], Deliver (S ''pong'')]"
             and raw = "[0x70, 0x69, 0x6E, 0x67, 0x0D]" and line = "[112, 105, 110, 103, 13]"
             and ul = "\<lambda>c. [c]"
             and post = "[Deliver (S ''pong''), LineIn [0x70, 0x69, 0x6E, 0x67], Deliver (S ''pong'')]"]
  by (simp add: conn_simps)

text \<open>
  The first line received ends with a carriage return but is not UTF-8: it is dropped,
  the next line fixes the mode to newline, and the response is written with a newline.
\<close>

theorem first_line_undecodable_counterexample:
  "last [0xFF, 0x0D :: 8 word] = 0x0D \<and>
   delimiter (conn_run (\<lambda>c. [c]) TurboProtocol_init
      [LineIn [0xFF, 0x0D], LineIn [0x70, 0x69, 0x6E, 0x67], Deliver (S ''pong'')]) = [0x0A] \<and>
   written (conn_run (\<lambda>c. [c]) TurboProtocol_init
      [LineIn [0xFF, 0x0D], LineIn [0x70, 0x69, 0x6E, 0x67], Deliver (S ''pong'')]) =
     [[0x70, 0x6F, 0x6E, 0x67, 0x0A]]"
  by (simp add: conn_simps)

section \<open>Properties of the offline tool\<close>

lemma remdups_drop_seen: "k \<in> set bs \<Longrightarrow> remdups (as @ k # bs) = remdups (as @ bs)"
  by (induction as) auto

lemma add_keys_first_seen:
  "distinct header \<Longrightarrow>
   add_keys ks header = first_seen (header @ filter (\<lambda>k. k \<noteq> S ''Status'') ks)"
proof (induction ks arbitrary: header)
  case Nil
  then show ?case by (simp add: first_seen_def distinct_remdups_id)
next
  case (Cons k ks)
  show ?case
  proof (cases "k \<noteq> S ''Status'' \<and> k \<notin> set header")
    case True
    with Cons.prems have "distinct (header @ [k])" by simp
    from Cons.IH [OF this] True show ?thesis by simp
  next
    case False
    show ?thesis
    proof (cases "k = S ''Status''")
      case True
      with Cons.IH [OF Cons.prems] show ?thesis by simp
    next
      case ne: False
      with False have "k \<in> set header" by simp
      then have "remdups (rev (filter (\<lambda>k. k \<noteq> S ''Status'') ks) @ k # rev header) =
          remdups (rev (filter (\<lambda>k. k \<noteq> S ''Status'') ks) @ rev header)"
        by (intro remdups_drop_seen) simp
      with Cons.IH [OF Cons.prems] False ne show ?thesis by (simp add: first_seen_def)
    qed
  qed
qed

lemma distinct_first_seen: "distinct (first_seen xs)"
  by (simp add: first_seen_def)

lemma set_first_seen: "set (first_seen xs) = set xs"
  by (simp add: first_seen_def)

lemma remdups_append_remdups: "remdups (as @ remdups bs) = remdups (as @ bs)"
  by (induction as) simp_all

lemma first_seen_append_again:
  "first_seen (first_seen xs @ ys) = first_seen (xs @ ys)"
  by (simp add: first_seen_def remdups_append_remdups)

lemma fold_keys_first_seen:
  "distinct header \<Longrightarrow>
   foldl (\<lambda>header result. add_keys (map fst result) header) header res =
     first_seen (header @ filter (\<lambda>k. k \<noteq> S ''Status'') (concat (map (map fst) res)))"
proof (induction res arbitrary: header)
  case Nil
  then show ?case by (simp add: first_seen_def distinct_remdups_id)
next
  case (Cons r res)
  have "distinct (add_keys (map fst r) header)"
    using Cons.prems by (simp add: add_keys_first_seen distinct_first_seen)
  from Cons.IH [OF this] Cons.prems show ?case
    by (simp add: add_keys_first_seen first_seen_append_again)
qed

lemma build_header_first_seen:
  "build_header res =
     first_seen (filter (\<lambda>k. k \<noteq> S ''Status'') (concat (map (map fst) res))) @ [S ''Status'']"
  using fold_keys_first_seen [of "[]" res] by (simp add: build_header_def)

lemma writerows_all:
  "\<forall>result \<in> set res. set (map fst result) \<subseteq> set fieldnames \<Longrightarrow>
   writerows fieldnames res = Inr (map (\<lambda>result. map (cell result) fieldnames) res)"
  by (induction res) (auto simp: writerow_def cell_def)

lemma keys_in_header:
  "result \<in> set res \<Longrightarrow> set (map fst result) \<subseteq> set (build_header res)"
  by (auto simp: build_header_first_seen set_first_seen)

text \<open>
  The list \<open>results\<close> that the loop over the paths leaves holds the labeled reports of
  the run.
\<close>

lemma ask_answered:
  "disposition ul inp = Some a \<Longrightarrow>
   ask ul fnd res inp =
     (None, res @ (if a = S ''x'' then [] else [dict_set fnd (S ''Status'') (status_name a)]),
      after_answer ul inp)"
  by (induction inp rule: disposition.induct)
     (auto simp: with_status_def status_name_def S_def)

lemma ask_unanswered:
  "disposition ul inp = None \<Longrightarrow> \<exists>e rest. ask ul fnd res inp = (Some e, res, rest)"
  by (induction inp rule: disposition.induct) (auto split: if_splits)

lemma with_status_Cons:
  "with_status ((fnd, a) # gs) =
     (if a = S ''x'' then [] else [dict_set fnd (S ''Status'') (status_name a)]) @ with_status gs"
  by (simp add: with_status_def)

lemma with_status_Nil: "with_status [] = []"
  by (simp add: with_status_def)

lemma parse_file_report:
  "parse_file env filename ts =
     (case report env filename of
        Inl e \<Rightarrow> (Some e, ts)
      | Inr fnd \<Rightarrow>
          (case dict_get fnd (S ''Serial_Number'') of
             Some sn \<Rightarrow>
               if sn \<in> serials ts then (None, ts)
               else (case print_found env fnd of
                       Some e \<Rightarrow> (Some e, ts\<lparr>serials := insert sn (serials ts)\<rparr>)
                     | None \<Rightarrow>
                         (case ask (t_ulower env) fnd (results ts) (stdin ts) of
                            (r, res, inp) \<Rightarrow>
                              (r, \<lparr>results = res, serials = insert sn (serials ts), stdin = inp\<rparr>)))
           | None \<Rightarrow>
               (case print_found env fnd of
                  Some e \<Rightarrow> (Some e, ts)
                | None \<Rightarrow>
                    (case ask (t_ulower env) fnd (results ts) (stdin ts) of
                       (r, res, inp) \<Rightarrow> (r, ts\<lparr>results := res, stdin := inp\<rparr>)))))"
  by (simp add: parse_file_def report_def Let_def split: node.split sum.split)

lemma parse_file_given:
  assumes "parse_file env filename ts = (r, ts1)"
  shows "results ts1 @ (if r = None then with_status (given env rest (serials ts1) (stdin ts1)) else []) =
         results ts @ with_status (given env (filename # rest) (serials ts) (stdin ts))"
proof (cases "report env filename")
  case (Inl e)
  with assms show ?thesis by (auto simp: parse_file_report with_status_Nil)
next
  case (Inr fnd)
  note rep = this
  show ?thesis
  proof (cases "case dict_get fnd (S ''Serial_Number'') of Some sn \<Rightarrow> sn \<in> serials ts | None \<Rightarrow> False")
    case True
    with assms rep show ?thesis
      by (auto simp: parse_file_report split: option.splits)
  next
    case False
    define seen where "seen = (case dict_get fnd (S ''Serial_Number'') of
                                  Some sn \<Rightarrow> insert sn (serials ts) | None \<Rightarrow> serials ts)"
    show ?thesis
    proof (cases "print_found env fnd")
      case (Some e)
      with assms rep False show ?thesis
        by (auto simp: parse_file_report with_status_Nil split: option.splits)
    next
      case None
      note pf = this
      show ?thesis
      proof (cases "disposition (t_ulower env) (stdin ts)")
        case None
        from ask_unanswered [OF this, of fnd "results ts"]
        obtain e inp1 where "ask (t_ulower env) fnd (results ts) (stdin ts) = (Some e, results ts, inp1)"
          by blast
        with assms rep False pf None show ?thesis
          by (auto simp: parse_file_report with_status_Nil split: option.splits)
      next
        case (Some a)
        from ask_answered [OF this, of fnd "results ts"]
        have "ask (t_ulower env) fnd (results ts) (stdin ts) =
            (None, results ts @ (if a = S ''x'' then [] else [dict_set fnd (S ''Status'') (status_name a)]),
             after_answer (t_ulower env) (stdin ts))" .
        with assms rep False pf Some show ?thesis
          by (auto simp: parse_file_report with_status_Cons split: option.splits)
      qed
    qed
  qed
qed

lemma parse_dir_given:
  "parse_dir env file names ts = (r, ts1) \<Longrightarrow>
   results ts1 @ (if r = None then with_status (given env rest (serials ts1) (stdin ts1)) else []) =
   results ts @
     with_status (given env (map (\<lambda>filename. rstrip_slash file @ S ''/'' @ filename) names @ rest)
                    (serials ts) (stdin ts))"
proof (induction names arbitrary: ts)
  case Nil
  then show ?case by auto
next
  case (Cons n ns)
  obtain r0 ts0 where pf: "parse_file env (rstrip_slash file @ S ''/'' @ n) ts = (r0, ts0)"
    by (cases "parse_file env (rstrip_slash file @ S ''/'' @ n) ts") auto
  note g = parse_file_given [OF pf,
      of "map (\<lambda>filename. rstrip_slash file @ S ''/'' @ filename) ns @ rest"]
  show ?case
  proof (cases r0)
    case None
    with Cons.prems pf have "parse_dir env file ns ts0 = (r, ts1)" by simp
    from Cons.IH [OF this] g None show ?thesis by simp
  next
    case (Some e)
    with Cons.prems pf have "r = Some e" "ts1 = ts0" by simp_all
    with g Some show ?thesis by simp
  qed
qed

lemma listing_Cons:
  "listing env (file # rest) =
     (case fs env file of
        Missing \<Rightarrow> []
      | Dir names \<Rightarrow> map (\<lambda>filename. rstrip_slash file @ S ''/'' @ filename) names
      | File content \<Rightarrow> [file]) @ listing env rest"
  by (simp add: listing_def)

lemma listing_Nil: "listing env [] = []"
  by (simp add: listing_def)

lemma parse_paths_given:
  "parse_paths env paths errs ts = (r, errs1, ts1) \<Longrightarrow>
   results ts1 @ (if r = None then with_status (given env rest (serials ts1) (stdin ts1)) else []) =
   results ts @ with_status (given env (listing env paths @ rest) (serials ts) (stdin ts))"
proof (induction paths arbitrary: errs ts)
  case Nil
  then show ?case by (auto simp: listing_Nil)
next
  case (Cons f0 ps)
  show ?case
  proof (cases "fs env f0")
    case Missing
    with Cons.prems have "parse_paths env ps True ts = (r, errs1, ts1)" by simp
    from Cons.IH [OF this] Missing show ?thesis by (simp add: listing_Cons)
  next
    case (Dir names)
    obtain r0 ts0 where pd: "parse_dir env f0 names ts = (r0, ts0)"
      by (cases "parse_dir env f0 names ts") auto
    note g = parse_dir_given [OF pd, of "listing env ps @ rest"]
    show ?thesis
    proof (cases r0)
      case None
      with Cons.prems Dir pd have "parse_paths env ps errs ts0 = (r, errs1, ts1)" by simp
      from Cons.IH [OF this] g None Dir show ?thesis by (simp add: listing_Cons)
    next
      case (Some e)
      with Cons.prems Dir pd have "r = Some e" "ts1 = ts0" by simp_all
      with g Some Dir show ?thesis by (simp add: listing_Cons)
    qed
  next
    case (File content)
    obtain r0 ts0 where pf: "parse_file env f0 ts = (r0, ts0)"
      by (cases "parse_file env f0 ts") auto
    note g = parse_file_given [OF pf, of "listing env ps @ rest"]
    show ?thesis
    proof (cases r0)
      case None
      with Cons.prems File pf have "parse_paths env ps errs ts0 = (r, errs1, ts1)" by simp
      from Cons.IH [OF this] g None File show ?thesis by (simp add: listing_Cons)
    next
      case (Some e)
      with Cons.prems File pf have "r = Some e" "ts1 = ts0" by simp_all
      with g Some File show ?thesis by (simp add: listing_Cons)
    qed
  qed
qed

lemma results_are_labeled:
  "results (snd (snd (parse_paths env paths False \<lparr>results = [], serials = {}, stdin = inp\<rparr>))) =
     labeled env paths inp"
proof -
  obtain r errs ts1 where p: "parse_paths env paths False \<lparr>results = [], serials = {}, stdin = inp\<rparr> = (r, errs, ts1)"
    by (cases "parse_paths env paths False \<lparr>results = [], serials = {}, stdin = inp\<rparr>") auto
  from parse_paths_given [OF p, of "[]"] have "results ts1 = labeled env paths inp"
    by (cases r) (simp_all add: labeled_def with_status_Nil)
  with p show ?thesis by simp
qed

lemma given_answers:
  "(fnd, a) \<in> set (given env files seen inp) \<Longrightarrow> a \<in> {S ''k'', S ''o'', S ''f'', S ''x''}"
proof -
  have d: "disposition ul i = Some b \<Longrightarrow> b \<in> {S ''k'', S ''o'', S ''f'', S ''x''}" for ul i b
    by (induction ul i rule: disposition.induct) (auto split: if_splits)
  show "(fnd, a) \<in> set (given env files seen inp) \<Longrightarrow> a \<in> {S ''k'', S ''o'', S ''f'', S ''x''}"
    by (induction files arbitrary: seen inp)
       (auto split: sum.splits option.splits if_splits dest: d)
qed

lemma key_in_header:
  "result \<in> set res \<Longrightarrow> k \<in> set (map fst result) \<Longrightarrow> k \<in> set (build_header res)"
  by (cases "k = S ''Status''") (auto simp: build_header_first_seen set_first_seen)

text \<open>
  C8. The run writes the CSV exactly when the loop over the paths ends normally, by an
  interrupt or by the end of the input. Then the CSV has exactly one data row for each
  report that the operator gave the disposition \<open>OK\<close>, \<open>OLD\<close> or \<open>FAIL\<close> in the run (the
  dispositions are read off the files and the input of the run, not off the list the
  program keeps), in the order of the prompts and made of the report's values and its
  status under the header; a discarded report has no row. The header is the union of the
  attribute names of the labeled reports in first-seen order, followed by \<open>Status\<close>.
\<close>

theorem csv_rows_are_the_labeled_reports:
  "(get_files env paths inp = Inr out \<longrightarrow>
      csv_header out =
        first_seen (filter (\<lambda>k. k \<noteq> S ''Status'') (concat (map (map fst) (labeled env paths inp)))) @
        [S ''Status''] \<and>
      csv_rows out = map (\<lambda>result. map (cell result) (csv_header out)) (labeled env paths inp) \<and>
      length (csv_rows out) =
        length (filter (\<lambda>(fnd, a). a \<in> {S ''k'', S ''o'', S ''f''})
                  (given env (listing env paths) {} inp))) \<and>
   ((\<exists>out. get_files env paths inp = Inr out) \<longleftrightarrow>
      fst (parse_paths env paths False \<lparr>results = [], serials = {}, stdin = inp\<rparr>) \<in>
        {None, Some KeyboardInterrupt, Some EOFError})"
proof (intro conjI impI)
  obtain r errs ts1 where p: "parse_paths env paths False \<lparr>results = [], serials = {}, stdin = inp\<rparr> = (r, errs, ts1)"
    by (cases "parse_paths env paths False \<lparr>results = [], serials = {}, stdin = inp\<rparr>") auto
  with results_are_labeled [of env paths inp] have l: "results ts1 = labeled env paths inp"
    by simp
  have w: "writerows (build_header (results ts1)) (results ts1) =
      Inr (map (\<lambda>result. map (cell result) (build_header (results ts1))) (results ts1))"
    by (rule writerows_all) (use key_in_header in blast)
  have g: "get_files env paths inp =
      (case (case r of None \<Rightarrow> None
             | Some e \<Rightarrow> if e = KeyboardInterrupt \<or> e = EOFError then None else Some e) of
         Some e \<Rightarrow> Inl e
       | None \<Rightarrow> Inr \<lparr>csv_header = build_header (results ts1),
                       csv_rows = map (\<lambda>result. map (cell result) (build_header (results ts1))) (results ts1),
                       exit_status = (if errs then 1 else 0)\<rparr>)"
    by (simp add: get_files_def p w split: option.split)
  have n: "length (labeled env paths inp) =
      length (filter (\<lambda>(fnd, a). a \<in> {S ''k'', S ''o'', S ''f''})
                (given env (listing env paths) {} inp))"
  proof -
    have "filter (\<lambda>(fnd, a). a \<noteq> S ''x'') (given env (listing env paths) {} inp) =
          filter (\<lambda>(fnd, a). a \<in> {S ''k'', S ''o'', S ''f''}) (given env (listing env paths) {} inp)"
      by (rule filter_cong [OF refl]) (auto simp: S_def dest: given_answers)
    then show ?thesis by (simp add: labeled_def with_status_def)
  qed
  {
    assume o: "get_files env paths inp = Inr out"
    with g have out: "out = \<lparr>csv_header = build_header (results ts1),
                       csv_rows = map (\<lambda>result. map (cell result) (build_header (results ts1))) (results ts1),
                       exit_status = (if errs then 1 else 0)\<rparr>"
      by (auto split: option.splits if_splits)
    show "csv_header out =
        first_seen (filter (\<lambda>k. k \<noteq> S ''Status'') (concat (map (map fst) (labeled env paths inp)))) @
        [S ''Status'']"
      by (simp add: out l build_header_first_seen)
    show "csv_rows out = map (\<lambda>result. map (cell result) (csv_header out)) (labeled env paths inp)"
      by (simp add: out l)
    show "length (csv_rows out) =
        length (filter (\<lambda>(fnd, a). a \<in> {S ''k'', S ''o'', S ''f''})
                  (given env (listing env paths) {} inp))"
      using n by (simp add: out l)
  }
  show "(\<exists>out. get_files env paths inp = Inr out) \<longleftrightarrow>
      fst (parse_paths env paths False \<lparr>results = [], serials = {}, stdin = inp\<rparr>) \<in>
        {None, Some KeyboardInterrupt, Some EOFError}"
    using g p by (auto split: option.splits if_splits)
qed

lemmas tool_simps = contains_def S_def scan_line_def second_part_def split_once_def find_sub_def
  last_field_def strip_def lstrip_def rstrip_def is_space_def Let_def demo_tool_def get_files_def
  parse_file_def build_header_def writerow_def dict_get_def str_of_nat.simps lower_def
  labeled_def cell_def first_seen_def attribute_names_def with_status_def status_name_def
  listing_def report_def

text \<open>
  Two reports with distinct serial numbers, answered \<open>k\<close> and \<open>o\<close>: two dispositions, two
  rows, \<open>OK\<close> and \<open>OLD\<close>, under the ordered union of the attribute names of both.
\<close>

theorem csv_rows_are_the_labeled_reports_witness:
  "get_files demo_tool [S ''a.txt'', S ''b.txt''] [Typed (S ''k''), Typed (S ''o'')] =
     Inr \<lparr>csv_header = [S ''Model_Family'', S ''Serial_Number'', S ''Errors_UNC'',
                         S ''Power_On_Hours_Exact'', S ''Power_On_Hours'', S ''Status''],
          csv_rows = [[S ''Foo'', S ''S1'', S ''0'', [], [], S ''OK''],
                      [[], S ''S2'', S ''0'', S ''true'', S ''1234'', S ''OLD'']],
          exit_status = 0\<rparr> \<and>
   given demo_tool (listing demo_tool [S ''a.txt'', S ''b.txt'']) {} [Typed (S ''k''), Typed (S ''o'')] =
     [([(S ''Model_Family'', S ''Foo''), (S ''Serial_Number'', S ''S1''), (S ''Errors_UNC'', S ''0'')],
       S ''k''),
      ([(S ''Serial_Number'', S ''S2''), (S ''Power_On_Hours_Exact'', S ''true''),
        (S ''Power_On_Hours'', S ''1234''), (S ''Errors_UNC'', S ''0'')], S ''o'')] \<and>
   length (filter (\<lambda>(fnd, a). a \<in> {S ''k'', S ''o'', S ''f''})
             (given demo_tool (listing demo_tool [S ''a.txt'', S ''b.txt'']) {}
                [Typed (S ''k''), Typed (S ''o'')])) = 2"
proof -
  have g: "get_files demo_tool [S ''a.txt'', S ''b.txt''] [Typed (S ''k''), Typed (S ''o'')] =
     Inr \<lparr>csv_header = [S ''Model_Family'', S ''Serial_Number'', S ''Errors_UNC'',
                         S ''Power_On_Hours_Exact'', S ''Power_On_Hours'', S ''Status''],
          csv_rows = [[S ''Foo'', S ''S1'', S ''0'', [], [], S ''OK''],
                      [[], S ''S2'', S ''0'', S ''true'', S ''1234'', S ''OLD'']],
          exit_status = 0\<rparr>"
    by (simp add: tool_simps)
  have d: "given demo_tool (listing demo_tool [S ''a.txt'', S ''b.txt'']) {} [Typed (S ''k''), Typed (S ''o'')] =
     [([(S ''Model_Family'', S ''Foo''), (S ''Serial_Number'', S ''S1''), (S ''Errors_UNC'', S ''0'')],
       S ''k''),
      ([(S ''Serial_Number'', S ''S2''), (S ''Power_On_Hours_Exact'', S ''true''),
        (S ''Power_On_Hours'', S ''1234''), (S ''Errors_UNC'', S ''0'')], S ''o'')]"
    by (simp add: tool_simps)
  from csv_rows_are_the_labeled_reports
          [where env = demo_tool and paths = "[S ''a.txt'', S ''b.txt'']"
             and inp = "[Typed (S ''k''), Typed (S ''o'')]"
             and out = "\<lparr>csv_header = [S ''Model_Family'', S ''Serial_Number'', S ''Errors_UNC'',
                         S ''Power_On_Hours_Exact'', S ''Power_On_Hours'', S ''Status''],
          csv_rows = [[S ''Foo'', S ''S1'', S ''0'', [], [], S ''OK''],
                      [[], S ''S2'', S ''0'', S ''true'', S ''1234'', S ''OLD'']],
          exit_status = 0\<rparr>"] g
  have "length (filter (\<lambda>(fnd, a). a \<in> {S ''k'', S ''o'', S ''f''})
             (given demo_tool (listing demo_tool [S ''a.txt'', S ''b.txt'']) {}
                [Typed (S ''k''), Typed (S ''o'')])) = 2"
    by simp
  with g d show ?thesis by simp
qed

text \<open>
  The first report has a model family and is discarded, the second has none and is marked
  \<open>OK\<close>: the header of the CSV has no column for the model family, an attribute met in a
  processed report.
\<close>

theorem discarded_report_counterexample:
  "(case fs demo_tool (S ''a.txt'') of
      File (Inr lines) \<Rightarrow>
        map_sum id (\<lambda>st. map fst (found st))
          (scan_lines (attributes demo_tool)
             \<lparr>info_section = False, data_section = False, errors_section = False,
              found = [], errors = 0\<rparr> lines)
    | _ \<Rightarrow> Inl TypeError) = Inr [S ''Model_Family'', S ''Serial_Number''] \<and>
   get_files demo_tool [S ''a.txt'', S ''b.txt''] [Typed (S ''x''), Typed (S ''K'')] =
     Inr \<lparr>csv_header = [S ''Serial_Number'', S ''Power_On_Hours_Exact'', S ''Power_On_Hours'',
                         S ''Errors_UNC'', S ''Status''],
          csv_rows = [[S ''S2'', S ''true'', S ''1234'', S ''0'', S ''OK'']],
          exit_status = 0\<rparr>"
  by (simp add: tool_simps)

end
